theory Spec2Isabelle
  imports Complex_Main
begin

section \<open>Strings as the JavaScript code uses them\<close>

text \<open>
  Template literals render a non-negative integer such as \<open>Date.now()\<close> in decimal,
  without sign, padding or exponent (the values are far below \<open>1e21\<close>).
\<close>

definition digitChar :: "nat \<Rightarrow> char" where
  "digitChar d = ''0123456789'' ! d"

function showNat :: "nat \<Rightarrow> string" where
  "showNat n = (if n < 10 then [digitChar n] else showNat (n div 10) @ [digitChar (n mod 10)])"
  by pat_completeness auto
termination
  by (relation "measure (\<lambda>n. n)") auto

declare showNat.simps [simp del]

definition isDigit :: "char \<Rightarrow> bool" where
  "isDigit c = (c \<in> set ''0123456789'')"



text \<open>\<open>String.prototype.startsWith\<close>, \<open>endsWith\<close> and \<open>toLowerCase\<close> (ASCII letters).\<close>

definition startsWith :: "string \<Rightarrow> string \<Rightarrow> bool" where
  "startsWith s p = (take (length p) s = p)"

definition endsWith :: "string \<Rightarrow> string \<Rightarrow> bool" where
  "endsWith s suf = (length suf \<le> length s \<and> drop (length s - length suf) s = suf)"

definition toLowerChar :: "char \<Rightarrow> char" where
  "toLowerChar c =
     (case map_of (zip ''ABCDEFGHIJKLMNOPQRSTUVWXYZ'' ''abcdefghijklmnopqrstuvwxyz'') c of
        None \<Rightarrow> c
      | Some l \<Rightarrow> l)"

definition toLowerCase :: "string \<Rightarrow> string" where
  "toLowerCase s = map toLowerChar s"

text \<open>\<open>filePath.startsWith('/') ? filePath.substring(1) : filePath\<close>\<close>

definition normalizePath :: "string \<Rightarrow> string" where
  "normalizePath filePath = (if startsWith filePath ''/'' then drop 1 filePath else filePath)"

section \<open>Configuration and the storage key\<close>

text \<open>
  \<open>bunnyConfig\<close> and the fields the two storage services set in their constructors. The
  access key is \<open>process.env.BUNNY_API_KEY\<close>, which may be unset.
\<close>

record config =
  storageAccessKey :: "string option"
  storageBaseUrl :: string
  storageZoneName :: string
  cdnBaseUrl :: string
  storageDir :: string

definition storageUrlBase :: string where
  "storageUrlBase = ''/images''"

definition getStorageUrl :: "config \<Rightarrow> string \<Rightarrow> string" where
  "getStorageUrl cfg filePath =
     storageBaseUrl cfg @ ''/'' @ storageZoneName cfg @ ''/'' @ normalizePath filePath"

definition getCdnUrl :: "config \<Rightarrow> string \<Rightarrow> string" where
  "getCdnUrl cfg filePath = cdnBaseUrl cfg @ ''/'' @ normalizePath filePath"

definition getPublicUrl :: "string \<Rightarrow> string" where
  "getPublicUrl filePath = storageUrlBase @ ''/'' @ normalizePath filePath"

text \<open>
  \<open>path.join(this.storageDir, normalizedPath)\<close> and \<open>path.dirname\<close>, for a base
  directory and a relative path that need no normalisation.
\<close>

definition getLocalPath :: "config \<Rightarrow> string \<Rightarrow> string" where
  "getLocalPath cfg filePath = storageDir cfg @ ''/'' @ normalizePath filePath"

definition dirname :: "string \<Rightarrow> string" where
  "dirname p = rev (drop 1 (dropWhile (\<lambda>c. c \<noteq> CHR ''/'') (rev p)))"

text \<open>
  Both services build the key with the same two lines:
  \<open>imageType = isBackground ? 'background' : 'profile'\<close> and
  \<open>`characters/${characterId}/${imageType}-${Date.now()}.webp`\<close>.
\<close>

definition imageType :: "bool \<Rightarrow> string" where
  "imageType isBackground = (if isBackground then ''background'' else ''profile'')"

definition characterImagePath :: "string \<Rightarrow> bool \<Rightarrow> nat \<Rightarrow> string" where
  "characterImagePath characterId isBackground now =
     ''characters/'' @ characterId @ ''/'' @ imageType isBackground @ ''-'' @ showNat now @ ''.webp''"

definition webpContentType :: string where
  "webpContentType = ''image/webp''"

section \<open>Listing endpoints\<close>

record storageEntry =
  ObjectName :: string
  IsDirectory :: bool

definition imageExtensions :: "string list" where
  "imageExtensions = [''.jpg'', ''.jpeg'', ''.png'', ''.gif'']"

text \<open>
  \<open>listImages\<close> and \<open>listVideos\<close> after \<open>listFiles\<close> has returned the entries; a
  failed listing is answered with status 500 by both and is not part of these functions.
\<close>

definition listImages :: "config \<Rightarrow> storageEntry list \<Rightarrow> string list" where
  "listImages cfg files =
     map (\<lambda>file. getCdnUrl cfg (''carasouls/'' @ ObjectName file))
       (filter (\<lambda>file. IsDirectory file = False \<and>
                  list_ex (\<lambda>ext. endsWith (toLowerCase (ObjectName file)) ext) imageExtensions)
          files)"

definition listVideos :: "config \<Rightarrow> storageEntry list \<Rightarrow> string list" where
  "listVideos cfg files =
     map (\<lambda>file. getCdnUrl cfg (''videos/'' @ ObjectName file))
       (filter (\<lambda>file. IsDirectory file = False \<and> endsWith (ObjectName file) ''.mp4'') files)"

text \<open>
  The listing as the specification words it: the non-directory entries whose name ends,
  compared case-insensitively, in one of the allowed extensions, in listing order, each
  mapped to the CDN URL of prefix plus object name.
\<close>

definition listingSpec :: "config \<Rightarrow> string \<Rightarrow> string list \<Rightarrow> storageEntry list \<Rightarrow> string list" where
  "listingSpec cfg prefix exts files =
     map (\<lambda>file. cdnBaseUrl cfg @ ''/'' @ prefix @ ObjectName file)
       (filter (\<lambda>file. \<not> IsDirectory file \<and>
                  list_ex (\<lambda>ext. endsWith (toLowerCase (ObjectName file)) (toLowerCase ext)) exts)
          files)"

definition bunnyConfig :: config where
  "bunnyConfig = \<lparr> storageAccessKey = Some ''bunny-access-key'',
     storageBaseUrl = ''https://storage.bunnycdn.com'', storageZoneName = ''leome'',
     cdnBaseUrl = ''https://leome.b-cdn.net'', storageDir = ''/app/public/images'' \<rparr>"

section \<open>The world the request handlers run in\<close>

type_synonym buffer = "nat list"

text \<open>
  What \<open>sharp\<close> is asked to do: \<open>.resize({width, height, fit, withoutEnlargement})\<close>
  followed by \<open>.webp({quality})\<close>. The library itself is outside the repository; it
  is a parameter of the model.
\<close>

datatype fit = Cover | Inside

record resizeOptions =
  width :: nat
  height :: nat
  fit :: fit
  withoutEnlargement :: bool

record options =
  opt_width :: "nat option"
  opt_height :: "nat option"
  opt_quality :: "nat option"

text \<open>\<open>options.width || 1200\<close>: a missing or zero value takes the default.\<close>

definition orDefault :: "nat option \<Rightarrow> nat \<Rightarrow> nat" where
  "orDefault v d = (case v of None \<Rightarrow> d | Some n \<Rightarrow> if n = 0 then d else n)"

definition resizeFor :: "bool \<Rightarrow> options \<Rightarrow> resizeOptions" where
  "resizeFor isBackground opts =
     (if isBackground
      then \<lparr> width = orDefault (opt_width opts) 1200, height = orDefault (opt_height opts) 800,
             fit = Inside, withoutEnlargement = True \<rparr>
      else \<lparr> width = orDefault (opt_width opts) 400, height = orDefault (opt_height opts) 400,
             fit = Cover, withoutEnlargement = False \<rparr>)"

record character =
  char_id :: string
  name :: string
  description :: string
  personality :: string
  imageUrl :: string
  backgroundImageUrl :: "string option"
  accentColor :: string
  textColor :: string
  age :: "string option"
  location :: "string option"
  responseTime :: string
  traits :: "string list"
  interests :: "string list"
  isActive :: bool
  createdAt :: nat
  updatedAt :: nat

text \<open>
  The outcome of \<open>JSON.parse\<close> on a non-empty string, as far as the handlers look at it:
  it throws, or yields a falsy value, or a truthy one (given as the string list that the
  schema's \<open>[String]\<close> cast makes of it).
\<close>

datatype parsed = ParseThrows | ParsedFalsy | ParsedList "string list"

text \<open>
  Everything a handler can observe of its surroundings without changing it: the
  configuration, the values the clock and \<open>Math.random\<close> return on their k-th call, what
  sharp returns for a file's content (\<open>None\<close>: it rejects), and which calls to the network,
  the file system and the database throw.
\<close>

record env =
  cfg :: config
  dateNow :: "nat \<Rightarrow> nat"
  mathRandom :: "nat \<Rightarrow> real"
  sharp :: "buffer \<Rightarrow> resizeOptions \<Rightarrow> nat \<Rightarrow> buffer option"
  axiosPut :: "string \<Rightarrow> buffer \<Rightarrow> bool"
  mkdirOk :: "string \<Rightarrow> bool"
  writeOk :: "string \<Rightarrow> bool"
  unlinkOk :: "string \<Rightarrow> bool"
  dbFindOk :: "string \<Rightarrow> bool"
  dbSaveOk :: "character \<Rightarrow> bool"
  jsonParse :: "string \<Rightarrow> parsed"

text \<open>The I/O calls a handler makes, in the order it makes them, whether they succeed or not.\<close>

datatype event =
    HttpPut string buffer string
  | MkDir string
  | WriteFile string buffer
  | Unlink string

text \<open>
  What the handlers change: the files and directories on the local disk, the Character
  collection (\<open>id\<close> carries a unique index), how often the clock and the random
  generator have been read, and the log of I/O calls.
\<close>

record world =
  files :: "string \<rightharpoonup> buffer"
  dirs :: "string set"
  db :: "string \<rightharpoonup> character"
  clock :: nat
  rng :: nat
  trace :: "event list"

definition emit :: "event \<Rightarrow> world \<Rightarrow> world" where
  "emit e w = w\<lparr>trace := trace w @ [e]\<rparr>"

definition Date_now :: "env \<Rightarrow> world \<Rightarrow> nat \<times> world" where
  "Date_now env w = (dateNow env (clock w), w\<lparr>clock := Suc (clock w)\<rparr>)"

definition Math_random :: "env \<Rightarrow> world \<Rightarrow> real \<times> world" where
  "Math_random env w = (mathRandom env (rng w), w\<lparr>rng := Suc (rng w)\<rparr>)"

text \<open>
  \<open>generateShortId\<close>: \<open>Math.floor(100000 + Math.random() * 900000)\<close>, then
  \<open>Date.now() % 10000\<close>, both rendered by one template literal.
\<close>

definition generateShortId :: "env \<Rightarrow> world \<Rightarrow> string \<times> world" where
  "generateShortId env w =
     (let (r, w1) = Math_random env w;
          randomNum = nat \<lfloor>100000 + r * 900000\<rfloor>;
          (now, w2) = Date_now env w1;
          timestamp = now mod 10000
      in (showNat randomNum @ showNat timestamp, w2))"

section \<open>The two storage services\<close>

datatype cause = SharpFailed | ApiKeyUnset | PutFailed | MkdirFailed | WriteFailed

datatype error = ProcessAndUploadError cause | ProcessAndSaveError cause

text \<open>
  The sharp pipeline both services run: read the staged file, resize by role, encode as
  WebP at \<open>options.quality || 85\<close>. A missing file makes \<open>toBuffer\<close> reject.
\<close>

definition runSharp :: "env \<Rightarrow> world \<Rightarrow> string \<Rightarrow> bool \<Rightarrow> options \<Rightarrow> buffer option" where
  "runSharp env w img isBackground opts =
     (case files w img of
        None \<Rightarrow> None
      | Some content \<Rightarrow>
          sharp env content (resizeFor isBackground opts) (orDefault (opt_quality opts) 85))"

text \<open>
  \<open>BunnyStorageService.uploadFile\<close>. Before the PUT it logs
  \<open>this.storageApiKey.substring(0, 5)\<close>, which throws inside the \<open>try\<close> when the key
  is unset: the upload then fails without any request.
\<close>

definition uploadFile :: "env \<Rightarrow> world \<Rightarrow> buffer \<Rightarrow> string \<Rightarrow> string \<Rightarrow> (cause + string) \<times> world" where
  "uploadFile env w fileBuffer filePath contentType =
     (let url = getStorageUrl (cfg env) filePath
      in case storageAccessKey (cfg env) of
           None \<Rightarrow> (Inl ApiKeyUnset, w)
         | Some accessKey \<Rightarrow>
             (let w1 = emit (HttpPut url fileBuffer
                               (if contentType = [] then webpContentType else contentType)) w
              in if axiosPut env url fileBuffer
                 then (Inr (getCdnUrl (cfg env) filePath), w1)
                 else (Inl PutFailed, w1)))"

text \<open>\<open>BunnyStorageService.processAndUploadCharacterImage\<close>\<close>

definition processAndUploadCharacterImage ::
  "env \<Rightarrow> world \<Rightarrow> string \<Rightarrow> string \<Rightarrow> bool \<Rightarrow> options \<Rightarrow> (error + string) \<times> world" where
  "processAndUploadCharacterImage env w img characterId isBackground opts =
     (case runSharp env w img isBackground opts of
        None \<Rightarrow> (Inl (ProcessAndUploadError SharpFailed), w)
      | Some processedImageBuffer \<Rightarrow>
          (let (now, w1) = Date_now env w;
               filePath = characterImagePath characterId isBackground now
           in case uploadFile env w1 processedImageBuffer filePath webpContentType of
                (Inl c, w2) \<Rightarrow> (Inl (ProcessAndUploadError c), w2)
              | (Inr url, w2) \<Rightarrow> (Inr url, w2)))"

text \<open>\<open>LocalStorageService.saveFile\<close>\<close>

definition saveFile :: "env \<Rightarrow> world \<Rightarrow> buffer \<Rightarrow> string \<Rightarrow> (cause + string) \<times> world" where
  "saveFile env w fileBuffer filePath =
     (let localPath = getLocalPath (cfg env) filePath;
          dir = dirname localPath;
          w1 = (if dir \<in> dirs w then w else emit (MkDir dir) w)
      in if dir \<notin> dirs w \<and> \<not> mkdirOk env dir then (Inl MkdirFailed, w1)
         else
           (let w2 = emit (WriteFile localPath fileBuffer) (w1\<lparr>dirs := insert dir (dirs w1)\<rparr>)
            in if writeOk env localPath
               then (Inr (getPublicUrl filePath), w2\<lparr>files := (files w2)(localPath \<mapsto> fileBuffer)\<rparr>)
               else (Inl WriteFailed, w2)))"

text \<open>\<open>LocalStorageService.processAndSaveCharacterImage\<close>\<close>

definition processAndSaveCharacterImage ::
  "env \<Rightarrow> world \<Rightarrow> string \<Rightarrow> string \<Rightarrow> bool \<Rightarrow> options \<Rightarrow> (error + string) \<times> world" where
  "processAndSaveCharacterImage env w img characterId isBackground opts =
     (case runSharp env w img isBackground opts of
        None \<Rightarrow> (Inl (ProcessAndSaveError SharpFailed), w)
      | Some processedImageBuffer \<Rightarrow>
          (let (now, w1) = Date_now env w;
               filePath = characterImagePath characterId isBackground now
           in case saveFile env w1 processedImageBuffer filePath of
                (Inl c, w2) \<Rightarrow> (Inl (ProcessAndSaveError c), w2)
              | (Inr url, w2) \<Rightarrow> (Inr url, w2)))"

section \<open>The character controller\<close>

text \<open>
  A multipart request after multer: the text fields of the body (absent or a string), the
  staged path of each uploaded file (\<open>req.files.image[0].path\<close>), the route parameter and
  \<open>`${req.protocol}://${req.get('host')}`\<close>.
\<close>

record request =
  baseUrl :: string
  params_id :: string
  body_name :: "string option"
  body_description :: "string option"
  body_personality :: "string option"
  body_accentColor :: "string option"
  body_textColor :: "string option"
  body_age :: "string option"
  body_location :: "string option"
  body_responseTime :: "string option"
  body_traits :: "string option"
  body_interests :: "string option"
  files_image :: "string option"
  files_backgroundImage :: "string option"

datatype body = Message string | CharacterJson character

type_synonym response = "nat \<times> body"

text \<open>JavaScript truthiness of a body field: \<open>undefined\<close> and \<open>''\<close> are falsy.\<close>

definition truthy :: "string option \<Rightarrow> bool" where
  "truthy v = (case v of None \<Rightarrow> False | Some s \<Rightarrow> s \<noteq> [])"

text \<open>\<open>v || d\<close> on a body field.\<close>

definition orElse :: "string option \<Rightarrow> string \<Rightarrow> string" where
  "orElse v d = (case v of None \<Rightarrow> d | Some s \<Rightarrow> if s = [] then d else s)"

fun splitOn :: "char \<Rightarrow> string \<Rightarrow> string list" where
  "splitOn sep [] = [[]]"
| "splitOn sep (c # cs) =
     (if c = sep then [] # splitOn sep cs
      else (case splitOn sep cs of [] \<Rightarrow> [[c]] | x # xs \<Rightarrow> (c # x) # xs))"

definition isSpace :: "char \<Rightarrow> bool" where
  "isSpace c = (c \<in> set [CHR '' '', CHR 0x09, CHR 0x0A, CHR 0x0B, CHR 0x0C, CHR 0x0D])"

definition trim :: "string \<Rightarrow> string" where
  "trim s = rev (dropWhile isSpace (rev (dropWhile isSpace s)))"

text \<open>
  The parsing of \<open>traits\<close> and \<open>interests\<close>: a truthy string goes through
  \<open>JSON.parse\<close>, and through \<open>split(',').map(t => t.trim())\<close> when that throws. The
  result \<open>None\<close> stands for a falsy value, which \<open>traits || []\<close> and \<open>if (traits)\<close>
  treat alike.
\<close>

definition parseListField :: "env \<Rightarrow> string option \<Rightarrow> string list option" where
  "parseListField env v =
     (case v of
        None \<Rightarrow> None
      | Some s \<Rightarrow>
          if s = [] then None
          else (case jsonParse env s of
                  ParseThrows \<Rightarrow> Some (map trim (splitOn CHR '','' s))
                | ParsedFalsy \<Rightarrow> None
                | ParsedList xs \<Rightarrow> Some xs))"

definition profileOptions :: options where
  "profileOptions = \<lparr> opt_width = Some 400, opt_height = Some 400, opt_quality = None \<rparr>"

definition backgroundOptions :: options where
  "backgroundOptions = \<lparr> opt_width = Some 1200, opt_height = Some 800, opt_quality = None \<rparr>"

text \<open>
  The nested \<open>try\<close>/\<open>catch\<close> the controller writes out four times (create and update,
  profile and background): the Bunny service first; when it throws, the local service on
  the same staged file, its URL prefixed with the request's base URL; when that throws too,
  both errors.
\<close>

definition uploadWithFallback ::
  "env \<Rightarrow> world \<Rightarrow> string \<Rightarrow> string \<Rightarrow> string \<Rightarrow> bool \<Rightarrow> options \<Rightarrow> ((error \<times> error) + string) \<times> world" where
  "uploadWithFallback env w base img characterId isBackground opts =
     (case processAndUploadCharacterImage env w img characterId isBackground opts of
        (Inr url, w1) \<Rightarrow> (Inr url, w1)
      | (Inl err, w1) \<Rightarrow>
          (case processAndSaveCharacterImage env w1 img characterId isBackground opts of
             (Inr localUrl, w2) \<Rightarrow> (Inr (base @ localUrl), w2)
           | (Inl localErr, w2) \<Rightarrow> (Inl (err, localErr), w2)))"

text \<open>
  \<open>if (fs.existsSync(p)) { fs.unlinkSync(p); }\<close>; the result is \<open>False\<close> when
  \<open>unlinkSync\<close> throws.
\<close>

definition unlinkIfExists :: "env \<Rightarrow> world \<Rightarrow> string \<Rightarrow> bool \<times> world" where
  "unlinkIfExists env w p =
     (if files w p = None then (True, w)
      else (let w1 = emit (Unlink p) w
            in if unlinkOk env p then (True, w1\<lparr>files := (files w1)(p := None)\<rparr>)
               else (False, w1)))"

text \<open>Database calls. \<open>findOne\<close> throws, finds nothing, or finds the document.\<close>

datatype found = FindThrows | NotFound | Found character

definition findOne :: "env \<Rightarrow> world \<Rightarrow> string \<Rightarrow> found" where
  "findOne env w i =
     (if \<not> dbFindOk env i then FindThrows
      else (case db w i of None \<Rightarrow> NotFound | Some c \<Rightarrow> Found c))"

text \<open>\<open>save\<close> of a new document: the unique index on \<open>id\<close> rejects a duplicate.\<close>

definition saveNew :: "env \<Rightarrow> world \<Rightarrow> character \<Rightarrow> bool \<times> world" where
  "saveNew env w c =
     (if dbSaveOk env c \<and> db w (char_id c) = None
      then (True, w\<lparr>db := (db w)(char_id c \<mapsto> c)\<rparr>)
      else (False, w))"

text \<open>\<open>save\<close> of the document that \<open>findOne\<close> returned for the key \<open>i\<close>.\<close>

definition saveFound :: "env \<Rightarrow> world \<Rightarrow> string \<Rightarrow> character \<Rightarrow> bool \<times> world" where
  "saveFound env w i c =
     (if dbSaveOk env c then (True, w\<lparr>db := (db w)(i \<mapsto> c)\<rparr>) else (False, w))"

text \<open>The background block of \<open>createCharacter\<close>: a failure of both services is swallowed.\<close>

definition createBackground :: "env \<Rightarrow> world \<Rightarrow> request \<Rightarrow> string \<Rightarrow> string option \<times> world" where
  "createBackground env w req characterId =
     (case files_backgroundImage req of
        None \<Rightarrow> (None, w)
      | Some bg \<Rightarrow>
          (case uploadWithFallback env w (baseUrl req) bg characterId True backgroundOptions of
             (Inr url, w1) \<Rightarrow> (Some url, w1)
           | (Inl e, w1) \<Rightarrow> (None, w1)))"

text \<open>"Delete temporary files after processing" in \<open>createCharacter\<close>.\<close>

definition deleteTemporaryFiles :: "env \<Rightarrow> world \<Rightarrow> string \<Rightarrow> string option \<Rightarrow> bool \<times> world" where
  "deleteTemporaryFiles env w img bg =
     (case unlinkIfExists env w img of
        (False, w1) \<Rightarrow> (False, w1)
      | (True, w1) \<Rightarrow>
          (case bg of None \<Rightarrow> (True, w1) | Some p \<Rightarrow> unlinkIfExists env w1 p))"

text \<open>
  \<open>new Character({...})\<close>: the schema defaults \<open>createdAt\<close> and \<open>updatedAt\<close> each call
  \<open>Date.now\<close>; \<open>isActive\<close> defaults to true.
\<close>

definition newCharacter ::
  "env \<Rightarrow> world \<Rightarrow> request \<Rightarrow> string \<Rightarrow> string \<Rightarrow> string option \<Rightarrow> string list option
     \<Rightarrow> string list option \<Rightarrow> character \<times> world" where
  "newCharacter env w req characterId url bgUrl traitsV interestsV =
     (let (created, w1) = Date_now env w;
          (updated, w2) = Date_now env w1
      in (\<lparr> char_id = characterId,
            name = orElse (body_name req) [],
            description = orElse (body_description req) [],
            personality = orElse (body_personality req) [],
            imageUrl = url,
            backgroundImageUrl = bgUrl,
            accentColor = orElse (body_accentColor req) ''#ec4899'',
            textColor = orElse (body_textColor req) ''#ffffff'',
            age = body_age req,
            location = body_location req,
            responseTime = orElse (body_responseTime req) ''< 1 min'',
            traits = (case traitsV of None \<Rightarrow> [] | Some xs \<Rightarrow> xs),
            interests = (case interestsV of None \<Rightarrow> [] | Some xs \<Rightarrow> xs),
            isActive = True,
            createdAt = created,
            updatedAt = updated \<rparr>, w2))"

definition createCharacter :: "env \<Rightarrow> world \<Rightarrow> request \<Rightarrow> response \<times> world" where
  "createCharacter env w req =
     (let traitsV = parseListField env (body_traits req);
          interestsV = parseListField env (body_interests req)
      in if \<not> truthy (body_name req) \<or> \<not> truthy (body_description req) \<or> \<not> truthy (body_personality req)
         then ((400, Message ''Please provide name, description, and personality''), w)
         else (case files_image req of
            None \<Rightarrow> ((400, Message ''Character image is required''), w)
          | Some img \<Rightarrow>
              (let (characterId, w1) = generateShortId env w
               in case uploadWithFallback env w1 (baseUrl req) img characterId False profileOptions of
                    (Inl e, w2) \<Rightarrow> ((500, Message ''Failed to upload image''), w2)
                  | (Inr url, w2) \<Rightarrow>
                      (let (bgUrl, w3) = createBackground env w2 req characterId
                       in case deleteTemporaryFiles env w3 img (files_backgroundImage req) of
                            (False, w4) \<Rightarrow> ((500, Message ''Server error''), w4)
                          | (True, w4) \<Rightarrow>
                              (let (character, w5) =
                                     newCharacter env w4 req characterId url bgUrl traitsV interestsV
                               in case saveNew env w5 character of
                                    (False, w6) \<Rightarrow> ((500, Message ''Server error''), w6)
                                  | (True, w6) \<Rightarrow> ((201, CharacterJson character), w6))))))"

text \<open>"Update text fields" in \<open>updateCharacter\<close>: ten guarded assignments.\<close>

definition updateTextFields ::
  "request \<Rightarrow> string list option \<Rightarrow> string list option \<Rightarrow> character \<Rightarrow> character" where
  "updateTextFields req traitsV interestsV c =
     (let c1 = (if truthy (body_name req) then c\<lparr>name := orElse (body_name req) []\<rparr> else c);
          c2 = (if truthy (body_description req)
                then c1\<lparr>description := orElse (body_description req) []\<rparr> else c1);
          c3 = (if truthy (body_personality req)
                then c2\<lparr>personality := orElse (body_personality req) []\<rparr> else c2);
          c4 = (if truthy (body_accentColor req)
                then c3\<lparr>accentColor := orElse (body_accentColor req) []\<rparr> else c3);
          c5 = (if truthy (body_textColor req)
                then c4\<lparr>textColor := orElse (body_textColor req) []\<rparr> else c4);
          c6 = (if truthy (body_age req) then c5\<lparr>age := body_age req\<rparr> else c5);
          c7 = (if truthy (body_location req) then c6\<lparr>location := body_location req\<rparr> else c6);
          c8 = (if truthy (body_responseTime req)
                then c7\<lparr>responseTime := orElse (body_responseTime req) []\<rparr> else c7);
          c9 = (case traitsV of None \<Rightarrow> c8 | Some xs \<Rightarrow> c8\<lparr>traits := xs\<rparr>)
      in (case interestsV of None \<Rightarrow> c9 | Some xs \<Rightarrow> c9\<lparr>interests := xs\<rparr>))"

text \<open>
  How a block of a handler ends: it falls through with the document as it now is, it
  returns a response, or it throws into the handler's outer \<open>catch\<close>.
\<close>

datatype outcome = Continue character | Returned response | Threw

text \<open>
  "Update image if provided": the fallback chain, then the \<open>finally\<close> that removes the
  staged file. A throw inside \<open>finally\<close> replaces a pending \<open>return\<close>.
\<close>

definition updateImage :: "env \<Rightarrow> world \<Rightarrow> request \<Rightarrow> string \<Rightarrow> character \<Rightarrow> outcome \<times> world" where
  "updateImage env w req characterId c =
     (case files_image req of
        None \<Rightarrow> (Continue c, w)
      | Some img \<Rightarrow>
          (let (r, w1) = uploadWithFallback env w (baseUrl req) img characterId False profileOptions
           in case unlinkIfExists env w1 img of
                (False, w2) \<Rightarrow> (Threw, w2)
              | (True, w2) \<Rightarrow>
                  (case r of
                     Inl e \<Rightarrow> (Returned (500, Message ''Failed to upload updated image''), w2)
                   | Inr url \<Rightarrow> (Continue (c\<lparr>imageUrl := url\<rparr>), w2))))"

text \<open>"Update background image if provided": as above, but a double failure is swallowed.\<close>

definition updateBackgroundImage ::
  "env \<Rightarrow> world \<Rightarrow> request \<Rightarrow> string \<Rightarrow> character \<Rightarrow> outcome \<times> world" where
  "updateBackgroundImage env w req characterId c =
     (case files_backgroundImage req of
        None \<Rightarrow> (Continue c, w)
      | Some bg \<Rightarrow>
          (let (r, w1) = uploadWithFallback env w (baseUrl req) bg characterId True backgroundOptions
           in case unlinkIfExists env w1 bg of
                (False, w2) \<Rightarrow> (Threw, w2)
              | (True, w2) \<Rightarrow>
                  (case r of
                     Inl e \<Rightarrow> (Continue c, w2)
                   | Inr url \<Rightarrow> (Continue (c\<lparr>backgroundImageUrl := Some url\<rparr>), w2))))"

text \<open>"Update timestamp" and "Save the updated character".\<close>

definition touchAndSave :: "env \<Rightarrow> world \<Rightarrow> string \<Rightarrow> character \<Rightarrow> response \<times> world" where
  "touchAndSave env w characterId c =
     (let (now, w1) = Date_now env w;
          c1 = c\<lparr>updatedAt := now\<rparr>
      in case saveFound env w1 characterId c1 of
           (False, w2) \<Rightarrow> ((500, Message ''Server error''), w2)
         | (True, w2) \<Rightarrow> ((200, CharacterJson c1), w2))"

definition updateCharacter :: "env \<Rightarrow> world \<Rightarrow> request \<Rightarrow> response \<times> world" where
  "updateCharacter env w req =
     (let characterId = params_id req;
          traitsV = parseListField env (body_traits req);
          interestsV = parseListField env (body_interests req)
      in case findOne env w characterId of
           FindThrows \<Rightarrow> ((500, Message ''Server error''), w)
         | NotFound \<Rightarrow> ((404, Message ''Character not found''), w)
         | Found character \<Rightarrow>
             (case updateImage env w req characterId
                     (updateTextFields req traitsV interestsV character) of
                (Threw, w1) \<Rightarrow> ((500, Message ''Server error''), w1)
              | (Returned resp, w1) \<Rightarrow> (resp, w1)
              | (Continue c1, w1) \<Rightarrow>
                  (case updateBackgroundImage env w1 req characterId c1 of
                     (Threw, w2) \<Rightarrow> ((500, Message ''Server error''), w2)
                   | (Returned resp, w2) \<Rightarrow> (resp, w2)
                   | (Continue c2, w2) \<Rightarrow> touchAndSave env w2 characterId c2)))"

text \<open>\<open>deleteCharacter\<close> of the character controller (route \<open>DELETE /:id\<close>).\<close>

definition deleteCharacter :: "env \<Rightarrow> world \<Rightarrow> request \<Rightarrow> response \<times> world" where
  "deleteCharacter env w req =
     (case findOne env w (params_id req) of
        FindThrows \<Rightarrow> ((500, Message ''Server error''), w)
      | NotFound \<Rightarrow> ((404, Message ''Character not found''), w)
      | Found character \<Rightarrow>
          (let c1 = character\<lparr>isActive := False\<rparr>;
               (now, w1) = Date_now env w;
               c2 = c1\<lparr>updatedAt := now\<rparr>
           in case saveFound env w1 (params_id req) c2 of
                (False, w2) \<Rightarrow> ((500, Message ''Server error''), w2)
              | (True, w2) \<Rightarrow> ((200, Message ''Character deleted successfully''), w2)))"

text \<open>
  \<open>deleteCharacter\<close> of the admin controller (route \<open>DELETE /characters/:id\<close> of the
  admin router). The Character schema has no \<open>pre('save')\<close> hook.
\<close>

definition admin_deleteCharacter :: "env \<Rightarrow> world \<Rightarrow> request \<Rightarrow> response \<times> world" where
  "admin_deleteCharacter env w req =
     (case findOne env w (params_id req) of
        FindThrows \<Rightarrow> ((500, Message ''Server error''), w)
      | NotFound \<Rightarrow> ((404, Message ''Character not found''), w)
      | Found character \<Rightarrow>
          (let c1 = character\<lparr>isActive := False\<rparr>
           in case saveFound env w (params_id req) c1 of
                (False, w1) \<Rightarrow> ((500, Message ''Server error''), w1)
              | (True, w1) \<Rightarrow> ((200, Message ''Character deleted successfully''), w1)))"

text \<open>Two documents agree on every field that carries text from the request body.\<close>

definition sameTextFields :: "character \<Rightarrow> character \<Rightarrow> bool" where
  "sameTextFields a b =
     (name a = name b \<and> description a = description b \<and> personality a = personality b \<and>
      accentColor a = accentColor b \<and> textColor a = textColor b \<and> age a = age b \<and>
      location a = location b \<and> responseTime a = responseTime b \<and> traits a = traits b \<and>
      interests a = interests b)"

section \<open>The geometry of the transform\<close>

text \<open>
  Modelled from the spec: the geometry of sharp's \<open>resize\<close>, a library outside the
  repository, on the width and height of an image. Cover resizes to exactly the requested
  width and height. Inside resizes to fit within the requested box, preserving the aspect
  ratio; with \<open>withoutEnlargement\<close> it never scales up. Dimensions are real numbers: the
  rounding to whole pixels, which the specification does not mention, is not modelled.
\<close>

definition sharpResize :: "resizeOptions \<Rightarrow> real \<times> real \<Rightarrow> real \<times> real" where
  "sharpResize r src =
     (case fit r of
        Cover \<Rightarrow> (real (width r), real (height r))
      | Inside \<Rightarrow>
          (let s = min (real (width r) / fst src) (real (height r) / snd src);
               s' = (if withoutEnlargement r then min 1 s else s)
           in (s' * fst src, s' * snd src)))"

text \<open>The size of the image a service hands on, from the size of the staged image.\<close>

definition transformSize :: "bool \<Rightarrow> options \<Rightarrow> real \<times> real \<Rightarrow> real \<times> real" where
  "transformSize isBackground opts src = sharpResize (resizeFor isBackground opts) src"

section \<open>Example inputs\<close>

text \<open>
  An environment in which the CDN rejects every PUT and every write to the local disk
  fails; two readings of the clock lie ten seconds apart and the random generator returns
  one half each time.
\<close>

definition downEnv :: env where
  "downEnv = \<lparr> cfg = bunnyConfig, dateNow = (\<lambda>k. 1700000001234 + 10000 * k),
     mathRandom = (\<lambda>k. 1 / 2),
     sharp = (\<lambda>content r q. Some (if fit r = Cover then [1] else [2])),
     axiosPut = (\<lambda>url buf. False), mkdirOk = (\<lambda>p. True), writeOk = (\<lambda>p. False),
     unlinkOk = (\<lambda>p. True), dbFindOk = (\<lambda>i. True), dbSaveOk = (\<lambda>c. True),
     jsonParse = (\<lambda>s. ParseThrows) \<rparr>"

text \<open>Two staged uploads on disk, an empty collection, nothing read or logged yet.\<close>

definition stagedWorld :: world where
  "stagedWorld = \<lparr> files = [''/app/uploads/temp/1-a.png'' \<mapsto> [7], ''/app/uploads/temp/1-b.png'' \<mapsto> [8]],
     dirs = {}, db = Map.empty, clock = 0, rng = 0, trace = [] \<rparr>"

text \<open>A complete create request with a profile image and no background image.\<close>

definition createRequest :: request where
  "createRequest = \<lparr> baseUrl = ''http://localhost:3000'', params_id = [],
     body_name = Some ''Test'', body_description = Some ''d'', body_personality = Some ''p'',
     body_accentColor = None, body_textColor = None, body_age = None, body_location = None,
     body_responseTime = None, body_traits = None, body_interests = None,
     files_image = Some ''/app/uploads/temp/1-a.png'', files_backgroundImage = None \<rparr>"

text \<open>As before, but the CDN accepts the PUT of the profile buffer and of no other.\<close>

definition profileOnlyEnv :: env where
  "profileOnlyEnv = downEnv\<lparr>axiosPut := (\<lambda>url buf. buf = [1])\<rparr>"

text \<open>The create request with a background image as well.\<close>

definition createRequestWithBackground :: request where
  "createRequestWithBackground = createRequest\<lparr>files_backgroundImage := Some ''/app/uploads/temp/1-b.png''\<rparr>"

text \<open>The staged world once the id has been generated.\<close>

definition afterId :: world where
  "afterId = stagedWorld\<lparr>rng := 1, clock := 1\<rparr>"

text \<open>The staged world once the profile image has been put on the CDN.\<close>

definition afterProfilePut :: world where
  "afterProfilePut = stagedWorld\<lparr>rng := 1, clock := 2, trace :=
      [HttpPut ''https://storage.bunnycdn.com/leome/characters/5500001234/profile-1700000011234.webp''
         [1] ''image/webp'']\<rparr>"

text \<open>A character as an earlier creation has stored it.\<close>

definition storedCharacter :: character where
  "storedCharacter = \<lparr> char_id = ''1234567890'', name = ''Sophia'', description = ''Life coach'',
     personality = ''Supportive'', imageUrl = ''https://leome.b-cdn.net/characters/1234567890/profile-5.webp'',
     backgroundImageUrl = None, accentColor = ''#ec4899'', textColor = ''#ffffff'', age = None,
     location = None, responseTime = ''< 1 min'', traits = [''Patient''], interests = [],
     isActive = True, createdAt = 5, updatedAt = 5 \<rparr>"

text \<open>The staged world with that character in the collection.\<close>

definition storedWorld :: world where
  "storedWorld = stagedWorld\<lparr>db := [''1234567890'' \<mapsto> storedCharacter]\<rparr>"

text \<open>An update request for it with no files, an empty name and no other field.\<close>

definition emptyUpdate :: request where
  "emptyUpdate = \<lparr> baseUrl = ''http://localhost:3000'', params_id = ''1234567890'',
     body_name = Some [], body_description = None, body_personality = None,
     body_accentColor = None, body_textColor = None, body_age = None, body_location = None,
     body_responseTime = None, body_traits = None, body_interests = None,
     files_image = None, files_backgroundImage = None \<rparr>"

text \<open>A delete request for it.\<close>

definition deleteRequest :: request where
  "deleteRequest = emptyUpdate\<lparr>body_name := None\<rparr>"

text \<open>An environment in which the CDN rejects every PUT and the local disk accepts every write.\<close>

definition localEnv :: env where
  "localEnv = downEnv\<lparr>writeOk := (\<lambda>p. True)\<rparr>"

text \<open>The staged world once a profile image for the id 42 has fallen back to the local disk.\<close>

definition afterLocalSave :: world where
  "afterLocalSave = stagedWorld\<lparr>clock := 2,
     dirs := {''/app/public/images/characters/42''},
     files := (files stagedWorld)(''/app/public/images/characters/42/profile-1700000011234.webp'' \<mapsto> [1]),
     trace :=
       [HttpPut ''https://storage.bunnycdn.com/leome/characters/42/profile-1700000001234.webp'' [1] ''image/webp'',
        MkDir ''/app/public/images/characters/42'',
        WriteFile ''/app/public/images/characters/42/profile-1700000011234.webp'' [1]]\<rparr>"

text \<open>As before, with the access key unset.\<close>

definition keylessEnv :: env where
  "keylessEnv = localEnv\<lparr>cfg := bunnyConfig\<lparr>storageAccessKey := None\<rparr>\<rparr>"

text \<open>The staged world once that environment has saved a profile image for the id 42.\<close>

definition afterKeylessSave :: world where
  "afterKeylessSave = stagedWorld\<lparr>clock := 2,
     dirs := {''/app/public/images/characters/42''},
     files := (files stagedWorld)(''/app/public/images/characters/42/profile-1700000011234.webp'' \<mapsto> [1]),
     trace :=
       [MkDir ''/app/public/images/characters/42'',
        WriteFile ''/app/public/images/characters/42/profile-1700000011234.webp'' [1]]\<rparr>"

text \<open>An environment whose \<open>JSON.parse\<close> reads the text \<open>[]\<close> as the empty array.\<close>

definition jsonEnv :: env where
  "jsonEnv = downEnv\<lparr>jsonParse := (\<lambda>s. if s = ''[]'' then ParsedList [] else ParseThrows)\<rparr>"

text \<open>An update request for the stored character whose only truthy field is \<open>traits = '[]'\<close>.\<close>

definition clearTraitsUpdate :: request where
  "clearTraitsUpdate = emptyUpdate\<lparr>body_traits := Some ''[]''\<rparr>"

section \<open>Properties of the key\<close>

lemma less_ten_cases:
  "d < 10 \<Longrightarrow> d = 0 \<or> d = 1 \<or> d = 2 \<or> d = 3 \<or> d = 4 \<or> d = 5 \<or> d = 6 \<or> d = 7 \<or> d = 8 \<or> d = (9::nat)"
  by arith


lemma isDigit_digitChar: "d < 10 \<Longrightarrow> isDigit (digitChar d)"
  using less_ten_cases [of d] by (auto simp: isDigit_def digitChar_def)




lemma showNat_digits: "list_all isDigit (showNat n)"
proof (induction n rule: showNat.induct)
  case (1 n)
  show ?case
  proof (cases "n < 10")
    case True
    then show ?thesis
      by (simp add: showNat.simps [of n] isDigit_digitChar)
  next
    case False
    with "1" have "list_all isDigit (showNat (n div 10))" by simp
    with False show ?thesis
      by (simp add: showNat.simps [of n] isDigit_digitChar)
  qed
qed

lemma showNat_nonempty: "showNat n \<noteq> []"
  by (simp add: showNat.simps [of n])



section \<open>Properties of the generated id\<close>

lemma generateShortId_value:
  "fst (generateShortId env w) =
     showNat (nat \<lfloor>100000 + mathRandom env (rng w) * 900000\<rfloor>) @ showNat (dateNow env (clock w) mod 10000)"
  by (simp add: generateShortId_def Math_random_def Date_now_def Let_def)

lemma generateShortId_digits:
  "fst (generateShortId env w) \<noteq> [] \<and> list_all isDigit (fst (generateShortId env w))"
  by (simp add: generateShortId_value showNat_nonempty showNat_digits)

text \<open>
  Claim C9. Two successive creation operations whose clock readings lie ten seconds apart
  and whose random draws are both one half are given the same id \<open>5500001234\<close>: the id
  keeps only the last four digits of the timestamp beside the six random ones.
\<close>

theorem generateShortId_collision:
  "dateNow downEnv (clock stagedWorld) \<noteq> dateNow downEnv (clock (snd (generateShortId downEnv stagedWorld)))
   \<and> fst (generateShortId downEnv stagedWorld) = ''5500001234''
   \<and> fst (generateShortId downEnv (snd (generateShortId downEnv stagedWorld))) = ''5500001234''"
  by (simp add: generateShortId_def Math_random_def Date_now_def downEnv_def stagedWorld_def
      showNat.simps digitChar_def)

section \<open>Properties of the listing endpoints\<close>

lemma toLowerCase_imageExtensions:
  "map toLowerCase imageExtensions = imageExtensions"
  by (simp add: imageExtensions_def toLowerCase_def toLowerChar_def)

text \<open>The carousel listing is the specified listing for the four image extensions.\<close>

lemma listImages_meets_listingSpec:
  "listImages c fs = listingSpec c ''carasouls/'' imageExtensions fs"
proof -
  have "toLowerCase ''.jpg'' = ''.jpg''" "toLowerCase ''.jpeg'' = ''.jpeg''"
       "toLowerCase ''.png'' = ''.png''" "toLowerCase ''.gif'' = ''.gif''"
    using toLowerCase_imageExtensions by (simp_all add: imageExtensions_def)
  then show ?thesis
    by (simp add: listImages_def listingSpec_def getCdnUrl_def normalizePath_def startsWith_def
        imageExtensions_def)
qed

text \<open>
  Claim C7. On a listing that holds the one file \<open>CLIP.MP4\<close>, the video endpoint returns
  nothing, while the specified listing for the extension \<open>.mp4\<close> returns its CDN URL: the
  video endpoint compares the extension without lowering the case of the name.
\<close>

theorem listVideos_case_sensitive:
  "listVideos bunnyConfig [\<lparr> ObjectName = ''CLIP.MP4'', IsDirectory = False \<rparr>] = []
   \<and> listingSpec bunnyConfig ''videos/'' [''.mp4''] [\<lparr> ObjectName = ''CLIP.MP4'', IsDirectory = False \<rparr>]
       = [''https://leome.b-cdn.net/videos/CLIP.MP4'']"
  by (simp add: listVideos_def listingSpec_def endsWith_def toLowerCase_def toLowerChar_def
      bunnyConfig_def)

section \<open>What the storage services change\<close>

lemma generateShortId_eq:
  "generateShortId env w =
     (showNat (nat \<lfloor>100000 + mathRandom env (rng w) * 900000\<rfloor>) @ showNat (dateNow env (clock w) mod 10000),
      w\<lparr>rng := Suc (rng w), clock := Suc (clock w)\<rparr>)"
  by (simp add: generateShortId_def Math_random_def Date_now_def Let_def)

lemma runSharp_cong:
  "files w' = files w \<Longrightarrow> runSharp env w' img b opts = runSharp env w img b opts"
  by (simp add: runSharp_def)

text \<open>The remote service, once sharp has produced a buffer.\<close>

lemma processAndUpload_eq:
  assumes "runSharp env w img b opts = Some buf" and "storageAccessKey (cfg env) = Some k"
  shows "processAndUploadCharacterImage env w img cid b opts =
     (if axiosPut env (getStorageUrl (cfg env) (characterImagePath cid b (dateNow env (clock w)))) buf
      then Inr (getCdnUrl (cfg env) (characterImagePath cid b (dateNow env (clock w))))
      else Inl (ProcessAndUploadError PutFailed),
      w\<lparr>clock := Suc (clock w),
        trace := trace w @ [HttpPut (getStorageUrl (cfg env)
                   (characterImagePath cid b (dateNow env (clock w)))) buf ''image/webp'']\<rparr>)"
  using assms
  by (simp add: processAndUploadCharacterImage_def uploadFile_def Date_now_def emit_def
      webpContentType_def Let_def)

text \<open>Without an access key the remote service fails before any request is made.\<close>

lemma processAndUpload_keyless:
  assumes "runSharp env w img b opts = Some buf" and "storageAccessKey (cfg env) = None"
  shows "processAndUploadCharacterImage env w img cid b opts =
     (Inl (ProcessAndUploadError ApiKeyUnset), w\<lparr>clock := Suc (clock w)\<rparr>)"
  using assms
  by (simp add: processAndUploadCharacterImage_def uploadFile_def Date_now_def Let_def)

lemma processAndUpload_sharp_fails:
  "runSharp env w img b opts = None \<Longrightarrow>
   processAndUploadCharacterImage env w img cid b opts = (Inl (ProcessAndUploadError SharpFailed), w)"
  by (simp add: processAndUploadCharacterImage_def)

text \<open>The local service, once sharp has produced a buffer.\<close>

lemma processAndSave_eq:
  assumes "runSharp env w img b opts = Some buf"
  shows "processAndSaveCharacterImage env w img cid b opts =
     (case saveFile env (w\<lparr>clock := Suc (clock w)\<rparr>) buf
             (characterImagePath cid b (dateNow env (clock w))) of
        (Inl c, w2) \<Rightarrow> (Inl (ProcessAndSaveError c), w2)
      | (Inr url, w2) \<Rightarrow> (Inr url, w2))"
  using assms by (simp add: processAndSaveCharacterImage_def Date_now_def Let_def)

lemma processAndSave_sharp_fails:
  "runSharp env w img b opts = None \<Longrightarrow>
   processAndSaveCharacterImage env w img cid b opts = (Inl (ProcessAndSaveError SharpFailed), w)"
  by (simp add: processAndSaveCharacterImage_def)

lemma db_uploadFile [simp]: "db (snd (uploadFile env w buf p ct)) = db w"
  by (simp add: uploadFile_def emit_def Let_def split: option.splits)

lemma files_uploadFile [simp]: "files (snd (uploadFile env w buf p ct)) = files w"
  by (simp add: uploadFile_def emit_def Let_def split: option.splits)

lemma db_saveFile [simp]: "db (snd (saveFile env w buf p)) = db w"
  by (simp add: saveFile_def emit_def Let_def)

lemma db_processAndUpload [simp]:
  "db (snd (processAndUploadCharacterImage env w img cid b opts)) = db w"
proof (cases "runSharp env w img b opts")
  case None
  then show ?thesis by (simp add: processAndUpload_sharp_fails)
next
  case (Some buf)
  then show ?thesis
    by (cases "storageAccessKey (cfg env)")
       (simp_all add: processAndUpload_eq processAndUpload_keyless)
qed

lemma files_processAndUpload [simp]:
  "files (snd (processAndUploadCharacterImage env w img cid b opts)) = files w"
proof (cases "runSharp env w img b opts")
  case None
  then show ?thesis by (simp add: processAndUpload_sharp_fails)
next
  case (Some buf)
  then show ?thesis
    by (cases "storageAccessKey (cfg env)")
       (simp_all add: processAndUpload_eq processAndUpload_keyless)
qed

lemma snd_wrap_result:
  "snd (case p of (Inl c, w2) \<Rightarrow> (Inl (f c), w2) | (Inr u, w2) \<Rightarrow> (Inr (g u), w2)) = snd p"
  by (auto split: prod.splits sum.splits)

lemma snd_processAndSave:
  "runSharp env w img b opts = Some buf \<Longrightarrow>
   snd (processAndSaveCharacterImage env w img cid b opts) =
   snd (saveFile env (w\<lparr>clock := Suc (clock w)\<rparr>) buf
          (characterImagePath cid b (dateNow env (clock w))))"
  using snd_wrap_result [of ProcessAndSaveError "\<lambda>u. u"] by (simp add: processAndSave_eq)

lemma db_processAndSave [simp]:
  "db (snd (processAndSaveCharacterImage env w img cid b opts)) = db w"
proof (cases "runSharp env w img b opts")
  case None
  then show ?thesis by (simp add: processAndSave_sharp_fails)
next
  case (Some buf)
  then show ?thesis by (simp add: snd_processAndSave)
qed

lemma db_uploadWithFallback [simp]:
  "db (snd (uploadWithFallback env w base img cid b opts)) = db w"
proof -
  obtain r1 w1 where p1: "processAndUploadCharacterImage env w img cid b opts = (r1, w1)"
    by (cases "processAndUploadCharacterImage env w img cid b opts")
  obtain r2 w2 where p2: "processAndSaveCharacterImage env w1 img cid b opts = (r2, w2)"
    by (cases "processAndSaveCharacterImage env w1 img cid b opts")
  have d1: "db w1 = db w" using db_processAndUpload [of env w img cid b opts] p1 by simp
  have d2: "db w2 = db w1" using db_processAndSave [of env w1 img cid b opts] p2 by simp
  show ?thesis
    using p1 p2 d1 d2 by (simp add: uploadWithFallback_def split: sum.splits)
qed

lemma db_unlinkIfExists [simp]: "db (snd (unlinkIfExists env w p)) = db w"
  by (simp add: unlinkIfExists_def emit_def Let_def)

lemma db_createBackground [simp]: "db (snd (createBackground env w req cid)) = db w"
proof (cases "files_backgroundImage req")
  case None
  then show ?thesis by (simp add: createBackground_def)
next
  case (Some bg)
  obtain r w1 where u: "uploadWithFallback env w (baseUrl req) bg cid True backgroundOptions = (r, w1)"
    by (cases "uploadWithFallback env w (baseUrl req) bg cid True backgroundOptions")
  have "db w1 = db w"
    using db_uploadWithFallback [of env w "baseUrl req" bg cid True backgroundOptions] u by simp
  with Some u show ?thesis by (simp add: createBackground_def split: sum.splits)
qed

lemma db_deleteTemporaryFiles [simp]: "db (snd (deleteTemporaryFiles env w img bg)) = db w"
proof -
  obtain ok w1 where u: "unlinkIfExists env w img = (ok, w1)"
    by (cases "unlinkIfExists env w img")
  have d: "db w1 = db w" using db_unlinkIfExists [of env w img] u by simp
  show ?thesis using u d
    by (cases ok; cases bg) (simp_all add: deleteTemporaryFiles_def)
qed

lemma db_newCharacter [simp]: "db (snd (newCharacter env w req cid url bg t i)) = db w"
  by (simp add: newCharacter_def Date_now_def Let_def)

lemma db_generateShortId [simp]: "db (snd (generateShortId env w)) = db w"
  by (simp add: generateShortId_eq)

section \<open>Properties of character creation\<close>

text \<open>
  Claim C4. A create request in which the name, the description, the personality or the
  profile image file is missing is answered with status 400, and the world is left exactly
  as it was: no network upload, no disk write and no other effect has been attempted.
\<close>

theorem create_validation_before_storage:
  "\<not> truthy (body_name req) \<or> \<not> truthy (body_description req) \<or> \<not> truthy (body_personality req)
     \<or> files_image req = None
   \<Longrightarrow> fst (fst (createCharacter env w req)) = 400 \<and> snd (createCharacter env w req) = w"
  by (auto simp: createCharacter_def Let_def)

theorem create_validation_before_storage_witness:
  "files_image (createRequest\<lparr>files_image := None\<rparr>) = None
   \<and> fst (fst (createCharacter downEnv stagedWorld (createRequest\<lparr>files_image := None\<rparr>))) = 400
   \<and> snd (createCharacter downEnv stagedWorld (createRequest\<lparr>files_image := None\<rparr>)) = stagedWorld"
  using create_validation_before_storage
    [of "createRequest\<lparr>files_image := None\<rparr>" downEnv stagedWorld]
  by simp

lemma uploadWithFallback_both_fail:
  assumes "isl (fst (processAndUploadCharacterImage env w img cid b opts))"
    and "isl (fst (processAndSaveCharacterImage env
            (snd (processAndUploadCharacterImage env w img cid b opts)) img cid b opts))"
  shows "isl (fst (uploadWithFallback env w base img cid b opts))"
    and "snd (uploadWithFallback env w base img cid b opts) =
         snd (processAndSaveCharacterImage env
            (snd (processAndUploadCharacterImage env w img cid b opts)) img cid b opts)"
proof -
  obtain r1 w1 where p1: "processAndUploadCharacterImage env w img cid b opts = (r1, w1)"
    by (cases "processAndUploadCharacterImage env w img cid b opts")
  obtain r2 w2 where p2: "processAndSaveCharacterImage env w1 img cid b opts = (r2, w2)"
    by (cases "processAndSaveCharacterImage env w1 img cid b opts")
  from assms p1 p2 obtain e1 e2 where "r1 = Inl e1" "r2 = Inl e2"
    by (cases r1; cases r2) simp_all
  with p1 p2 show "isl (fst (uploadWithFallback env w base img cid b opts))"
    and "snd (uploadWithFallback env w base img cid b opts) =
         snd (processAndSaveCharacterImage env
            (snd (processAndUploadCharacterImage env w img cid b opts)) img cid b opts)"
    by (simp_all add: uploadWithFallback_def)
qed

lemma unlinkIfExists_ok: "\<forall>p. unlinkOk env p \<Longrightarrow> fst (unlinkIfExists env w p)"
  by (simp add: unlinkIfExists_def Let_def)

lemma deleteTemporaryFiles_ok:
  assumes "\<forall>p. unlinkOk env p"
  shows "fst (deleteTemporaryFiles env w img bg)"
proof -
  obtain ok w1 where u: "unlinkIfExists env w img = (ok, w1)"
    by (cases "unlinkIfExists env w img")
  with unlinkIfExists_ok [OF assms, of w img] have ok by simp
  with u unlinkIfExists_ok [OF assms] show ?thesis
    by (cases bg) (simp_all add: deleteTemporaryFiles_def)
qed

lemma newCharacter_fields:
  "char_id (fst (newCharacter env w req cid url bg t i)) = cid"
  "imageUrl (fst (newCharacter env w req cid url bg t i)) = url"
  "backgroundImageUrl (fst (newCharacter env w req cid url bg t i)) = bg"
  "isActive (fst (newCharacter env w req cid url bg t i))"
  by (simp_all add: newCharacter_def Date_now_def Let_def)

text \<open>
  Claim C3. For a create request that passes validation: when the CDN attempt and the
  local attempt for the profile image both fail, the answer is status 500 and the
  collection is unchanged; when the profile image has been stored and both attempts for
  the background image fail, then, provided the staged files can be removed, the database
  accepts the document and the generated id is not taken, the answer is status 201 and
  the stored document has the profile URL and no background URL.
\<close>

theorem create_storage_failure_asymmetry:
  assumes valid: "truthy (body_name req)" "truthy (body_description req)"
      "truthy (body_personality req)" "files_image req = Some img"
    and cid: "cid = fst (generateShortId env w)"
    and w1: "w1 = snd (generateShortId env w)"
    and w2: "w2 = snd (uploadWithFallback env w1 (baseUrl req) img cid False profileOptions)"
  shows "(isl (fst (processAndUploadCharacterImage env w1 img cid False profileOptions)) \<and>
          isl (fst (processAndSaveCharacterImage env
                 (snd (processAndUploadCharacterImage env w1 img cid False profileOptions))
                 img cid False profileOptions))
          \<longrightarrow> fst (createCharacter env w req) = (500, Message ''Failed to upload image'')
              \<and> db (snd (createCharacter env w req)) = db w)
       \<and> (fst (uploadWithFallback env w1 (baseUrl req) img cid False profileOptions) = Inr url \<and>
          files_backgroundImage req = Some bg \<and>
          isl (fst (processAndUploadCharacterImage env w2 bg cid True backgroundOptions)) \<and>
          isl (fst (processAndSaveCharacterImage env
                 (snd (processAndUploadCharacterImage env w2 bg cid True backgroundOptions))
                 bg cid True backgroundOptions)) \<and>
          (\<forall>p. unlinkOk env p) \<and> (\<forall>c. dbSaveOk env c) \<and> db w cid = None
          \<longrightarrow> (\<exists>c. fst (createCharacter env w req) = (201, CharacterJson c)
                  \<and> char_id c = cid \<and> imageUrl c = url \<and> backgroundImageUrl c = None
                  \<and> db (snd (createCharacter env w req)) = (db w)(cid \<mapsto> c)))"
proof (intro conjI impI)
  have g: "generateShortId env w = (cid, w1)" using cid w1 by simp
  have dw1: "db w1 = db w" using w1 by simp
  {
    assume a: "isl (fst (processAndUploadCharacterImage env w1 img cid False profileOptions)) \<and>
          isl (fst (processAndSaveCharacterImage env
                 (snd (processAndUploadCharacterImage env w1 img cid False profileOptions))
                 img cid False profileOptions))"
    obtain r wb where u: "uploadWithFallback env w1 (baseUrl req) img cid False profileOptions = (r, wb)"
      by (cases "uploadWithFallback env w1 (baseUrl req) img cid False profileOptions")
    from a uploadWithFallback_both_fail(1) [of env w1 img cid False profileOptions "baseUrl req"] u
    obtain e where r: "r = Inl e" by (cases r) simp_all
    have dwb: "db wb = db w1"
      using db_uploadWithFallback [of env w1 "baseUrl req" img cid False profileOptions] u by simp
    from valid g u r have c: "createCharacter env w req = ((500, Message ''Failed to upload image''), wb)"
      by (simp add: createCharacter_def Let_def)
    from c show "fst (createCharacter env w req) = (500, Message ''Failed to upload image'')" by simp
    from c dwb dw1 show "db (snd (createCharacter env w req)) = db w" by simp
  }
  {
    assume a: "fst (uploadWithFallback env w1 (baseUrl req) img cid False profileOptions) = Inr url \<and>
          files_backgroundImage req = Some bg \<and>
          isl (fst (processAndUploadCharacterImage env w2 bg cid True backgroundOptions)) \<and>
          isl (fst (processAndSaveCharacterImage env
                 (snd (processAndUploadCharacterImage env w2 bg cid True backgroundOptions))
                 bg cid True backgroundOptions)) \<and>
          (\<forall>p. unlinkOk env p) \<and> (\<forall>c. dbSaveOk env c) \<and> db w cid = None"
    from a w2 have u: "uploadWithFallback env w1 (baseUrl req) img cid False profileOptions = (Inr url, w2)"
      by (cases "uploadWithFallback env w1 (baseUrl req) img cid False profileOptions") simp
    have dw2: "db w2 = db w1" using w2 by simp
    obtain rb w3 where ub: "uploadWithFallback env w2 (baseUrl req) bg cid True backgroundOptions = (rb, w3)"
      by (cases "uploadWithFallback env w2 (baseUrl req) bg cid True backgroundOptions")
    from a uploadWithFallback_both_fail(1) [of env w2 bg cid True backgroundOptions "baseUrl req"] ub
    obtain e where rb: "rb = Inl e" by (cases rb) simp_all
    have dw3: "db w3 = db w2"
      using db_uploadWithFallback [of env w2 "baseUrl req" bg cid True backgroundOptions] ub by simp
    from a ub rb have cb: "createBackground env w2 req cid = (None, w3)"
      by (simp add: createBackground_def)
    obtain ok w4 where d: "deleteTemporaryFiles env w3 img (Some bg) = (ok, w4)"
      by (cases "deleteTemporaryFiles env w3 img (Some bg)")
    from a deleteTemporaryFiles_ok [of env w3 img "Some bg"] d have ok: ok by simp
    have dw4: "db w4 = db w3" using db_deleteTemporaryFiles [of env w3 img "Some bg"] d by simp
    obtain c w5 where n: "newCharacter env w4 req cid url None
        (parseListField env (body_traits req)) (parseListField env (body_interests req)) = (c, w5)"
      by (cases "newCharacter env w4 req cid url None
        (parseListField env (body_traits req)) (parseListField env (body_interests req))")
    have dw5: "db w5 = db w4"
      using db_newCharacter [of env w4 req cid url None "parseListField env (body_traits req)"
          "parseListField env (body_interests req)"] n by simp
    have cf: "char_id c = cid" "imageUrl c = url" "backgroundImageUrl c = None"
      using newCharacter_fields(1-3) [of env w4 req cid url None "parseListField env (body_traits req)"
          "parseListField env (body_interests req)"] n by simp_all
    from a cf dw5 dw4 dw3 dw2 dw1 have s: "saveNew env w5 c = (True, w5\<lparr>db := (db w)(cid \<mapsto> c)\<rparr>)"
      by (simp add: saveNew_def)
    from valid a g u cb d ok n s
    have "createCharacter env w req = ((201, CharacterJson c), w5\<lparr>db := (db w)(cid \<mapsto> c)\<rparr>)"
      by (simp add: createCharacter_def Let_def)
    with cf show "\<exists>c. fst (createCharacter env w req) = (201, CharacterJson c)
                  \<and> char_id c = cid \<and> imageUrl c = url \<and> backgroundImageUrl c = None
                  \<and> db (snd (createCharacter env w req)) = (db w)(cid \<mapsto> c)"
      by simp
  }
qed

lemmas string_defs = showNat.simps digitChar_def startsWith_def normalizePath_def
  dirname_def imageType_def characterImagePath_def getStorageUrl_def getCdnUrl_def
  getPublicUrl_def storageUrlBase_def getLocalPath_def bunnyConfig_def

lemma ex_access_key:
  "storageAccessKey (cfg downEnv) = Some ''bunny-access-key''"
  "storageAccessKey (cfg profileOnlyEnv) = Some ''bunny-access-key''"
  "storageAccessKey (cfg localEnv) = Some ''bunny-access-key''"
  by (simp_all add: downEnv_def profileOnlyEnv_def localEnv_def bunnyConfig_def)

lemma ex_createRequest:
  "truthy (body_name createRequest)" "truthy (body_description createRequest)"
  "truthy (body_personality createRequest)"
  "files_image createRequest = Some ''/app/uploads/temp/1-a.png''"
  "files_backgroundImage createRequest = None"
  "baseUrl createRequest = ''http://localhost:3000''"
  by (simp_all add: createRequest_def truthy_def)

lemma ex_generateShortId:
  "generateShortId downEnv stagedWorld = (''5500001234'', stagedWorld\<lparr>rng := 1, clock := 1\<rparr>)"
  by (simp add: generateShortId_eq downEnv_def stagedWorld_def showNat.simps digitChar_def)

lemma ex_generateShortId_profileOnly:
  "generateShortId profileOnlyEnv stagedWorld = (''5500001234'', stagedWorld\<lparr>rng := 1, clock := 1\<rparr>)"
  by (simp add: generateShortId_eq profileOnlyEnv_def downEnv_def stagedWorld_def showNat.simps digitChar_def)

lemma ex_runSharp_profile:
  "runSharp downEnv (stagedWorld\<lparr>rng := 1, clock := 1\<rparr>) ''/app/uploads/temp/1-a.png'' False profileOptions = Some [1]"
  by (simp add: runSharp_def downEnv_def stagedWorld_def resizeFor_def)

lemma ex_remote_profile:
  "processAndUploadCharacterImage downEnv (stagedWorld\<lparr>rng := 1, clock := 1\<rparr>)
     ''/app/uploads/temp/1-a.png'' ''5500001234'' False profileOptions =
   (Inl (ProcessAndUploadError PutFailed),
    stagedWorld\<lparr>rng := 1, clock := 2, trace :=
      [HttpPut ''https://storage.bunnycdn.com/leome/characters/5500001234/profile-1700000011234.webp''
         [1] ''image/webp'']\<rparr>)"
  unfolding processAndUpload_eq [OF ex_runSharp_profile ex_access_key(1)]
  by (simp add: downEnv_def stagedWorld_def string_defs)

lemma ex_local_profile:
  "processAndSaveCharacterImage downEnv
     (stagedWorld\<lparr>rng := 1, clock := 2, trace :=
      [HttpPut ''https://storage.bunnycdn.com/leome/characters/5500001234/profile-1700000011234.webp''
         [1] ''image/webp'']\<rparr>)
     ''/app/uploads/temp/1-a.png'' ''5500001234'' False profileOptions =
   (Inl (ProcessAndSaveError WriteFailed),
    stagedWorld\<lparr>rng := 1, clock := 3, dirs := {''/app/public/images/characters/5500001234''},
      trace :=
      [HttpPut ''https://storage.bunnycdn.com/leome/characters/5500001234/profile-1700000011234.webp''
         [1] ''image/webp'',
       MkDir ''/app/public/images/characters/5500001234'',
       WriteFile ''/app/public/images/characters/5500001234/profile-1700000021234.webp'' [1]]\<rparr>)"
proof -
  have r: "runSharp downEnv (stagedWorld\<lparr>rng := 1, clock := 2, trace :=
      [HttpPut ''https://storage.bunnycdn.com/leome/characters/5500001234/profile-1700000011234.webp''
         [1] ''image/webp'']\<rparr>) ''/app/uploads/temp/1-a.png'' False profileOptions = Some [1]"
    by (simp add: runSharp_def downEnv_def stagedWorld_def resizeFor_def)
  show ?thesis
    unfolding processAndSave_eq [OF r]
    by (simp add: saveFile_def emit_def Let_def downEnv_def stagedWorld_def string_defs)
qed

text \<open>
  Claim C2. A create request whose profile image fails on the CDN and on the local disk is
  answered with status 500 while the staged source file is still on disk: the handler has
  made the PUT, the mkdir and the write, and no unlink.
\<close>

theorem create_leaves_staged_file_when_both_backends_fail:
  "fst (createCharacter downEnv stagedWorld createRequest) = (500, Message ''Failed to upload image'')
   \<and> files (snd (createCharacter downEnv stagedWorld createRequest)) ''/app/uploads/temp/1-a.png'' = Some [7]
   \<and> trace (snd (createCharacter downEnv stagedWorld createRequest)) =
      [HttpPut ''https://storage.bunnycdn.com/leome/characters/5500001234/profile-1700000011234.webp''
         [1] ''image/webp'',
       MkDir ''/app/public/images/characters/5500001234'',
       WriteFile ''/app/public/images/characters/5500001234/profile-1700000021234.webp'' [1]]"
proof -
  have u: "uploadWithFallback downEnv (stagedWorld\<lparr>rng := 1, clock := 1\<rparr>) ''http://localhost:3000''
      ''/app/uploads/temp/1-a.png'' ''5500001234'' False profileOptions =
    (Inl (ProcessAndUploadError PutFailed, ProcessAndSaveError WriteFailed),
     stagedWorld\<lparr>rng := 1, clock := 3, dirs := {''/app/public/images/characters/5500001234''},
      trace :=
      [HttpPut ''https://storage.bunnycdn.com/leome/characters/5500001234/profile-1700000011234.webp''
         [1] ''image/webp'',
       MkDir ''/app/public/images/characters/5500001234'',
       WriteFile ''/app/public/images/characters/5500001234/profile-1700000021234.webp'' [1]]\<rparr>)"
    by (simp only: uploadWithFallback_def ex_remote_profile ex_local_profile prod.case sum.case)
  have c: "createCharacter downEnv stagedWorld createRequest =
    ((500, Message ''Failed to upload image''),
     stagedWorld\<lparr>rng := 1, clock := 3, dirs := {''/app/public/images/characters/5500001234''},
      trace :=
      [HttpPut ''https://storage.bunnycdn.com/leome/characters/5500001234/profile-1700000011234.webp''
         [1] ''image/webp'',
       MkDir ''/app/public/images/characters/5500001234'',
       WriteFile ''/app/public/images/characters/5500001234/profile-1700000021234.webp'' [1]]\<rparr>)"
    by (simp only: createCharacter_def Let_def ex_createRequest ex_generateShortId u
        prod.case sum.case option.case simp_thms if_False)
  show ?thesis
    by (simp add: c) (simp add: stagedWorld_def)
qed

theorem create_leaves_staged_file_witness:
  "truthy (body_name createRequest) \<and> truthy (body_description createRequest)
   \<and> truthy (body_personality createRequest)
   \<and> files_image createRequest = Some ''/app/uploads/temp/1-a.png''
   \<and> files stagedWorld ''/app/uploads/temp/1-a.png'' = Some [7]
   \<and> fst (fst (createCharacter downEnv stagedWorld createRequest)) = 500
   \<and> files (snd (createCharacter downEnv stagedWorld createRequest)) ''/app/uploads/temp/1-a.png''
       = files stagedWorld ''/app/uploads/temp/1-a.png''"
  using create_leaves_staged_file_when_both_backends_fail ex_createRequest(1-4)
  by (simp add: stagedWorld_def)

lemma processAndUpload_isl:
  "\<forall>u buf. \<not> axiosPut env u buf \<Longrightarrow>
   isl (fst (processAndUploadCharacterImage env w img cid b opts))"
  by (cases "runSharp env w img b opts"; cases "storageAccessKey (cfg env)")
     (simp_all add: processAndUpload_sharp_fails processAndUpload_eq processAndUpload_keyless)

lemma saveFile_isl: "\<forall>p. \<not> writeOk env p \<Longrightarrow> isl (fst (saveFile env w buf p))"
  by (simp add: saveFile_def Let_def)

lemma processAndSave_isl:
  assumes "\<forall>p. \<not> writeOk env p"
  shows "isl (fst (processAndSaveCharacterImage env w img cid b opts))"
proof (cases "runSharp env w img b opts")
  case None
  then show ?thesis by (simp add: processAndSave_sharp_fails)
next
  case (Some buf)
  obtain r w2 where s: "saveFile env (w\<lparr>clock := Suc (clock w)\<rparr>) buf
             (characterImagePath cid b (dateNow env (clock w))) = (r, w2)"
    by (cases "saveFile env (w\<lparr>clock := Suc (clock w)\<rparr>) buf
             (characterImagePath cid b (dateNow env (clock w)))")
  with saveFile_isl [OF assms, of "w\<lparr>clock := Suc (clock w)\<rparr>" buf
      "characterImagePath cid b (dateNow env (clock w))"]
  obtain c where "r = Inl c" by (cases r) simp_all
  with Some s show ?thesis by (simp add: processAndSave_eq)
qed

lemma ex_profileOnly_upload:
  "uploadWithFallback profileOnlyEnv afterId ''http://localhost:3000''
      ''/app/uploads/temp/1-a.png'' ''5500001234'' False profileOptions =
   (Inr ''https://leome.b-cdn.net/characters/5500001234/profile-1700000011234.webp'', afterProfilePut)"
proof -
  have r: "runSharp profileOnlyEnv afterId ''/app/uploads/temp/1-a.png'' False profileOptions = Some [1]"
    by (simp add: runSharp_def profileOnlyEnv_def downEnv_def afterId_def stagedWorld_def resizeFor_def)
  have "processAndUploadCharacterImage profileOnlyEnv afterId
      ''/app/uploads/temp/1-a.png'' ''5500001234'' False profileOptions =
   (Inr ''https://leome.b-cdn.net/characters/5500001234/profile-1700000011234.webp'', afterProfilePut)"
    unfolding processAndUpload_eq [OF r ex_access_key(2)]
    by (simp add: profileOnlyEnv_def downEnv_def afterId_def afterProfilePut_def stagedWorld_def
        string_defs)
  then show ?thesis
    by (simp only: uploadWithFallback_def prod.case sum.case)
qed

theorem create_storage_failure_asymmetry_witness:
  "(isl (fst (processAndUploadCharacterImage downEnv afterId ''/app/uploads/temp/1-a.png''
            ''5500001234'' False profileOptions)) \<and>
    isl (fst (processAndSaveCharacterImage downEnv
            (snd (processAndUploadCharacterImage downEnv afterId ''/app/uploads/temp/1-a.png''
                    ''5500001234'' False profileOptions))
            ''/app/uploads/temp/1-a.png'' ''5500001234'' False profileOptions)) \<and>
    fst (createCharacter downEnv stagedWorld createRequest) = (500, Message ''Failed to upload image'') \<and>
    db (snd (createCharacter downEnv stagedWorld createRequest)) = db stagedWorld)
   \<and>
   (fst (uploadWithFallback profileOnlyEnv afterId (baseUrl createRequestWithBackground)
           ''/app/uploads/temp/1-a.png'' ''5500001234'' False profileOptions) =
      Inr ''https://leome.b-cdn.net/characters/5500001234/profile-1700000011234.webp'' \<and>
    files_backgroundImage createRequestWithBackground = Some ''/app/uploads/temp/1-b.png'' \<and>
    isl (fst (processAndUploadCharacterImage profileOnlyEnv afterProfilePut
            ''/app/uploads/temp/1-b.png'' ''5500001234'' True backgroundOptions)) \<and>
    isl (fst (processAndSaveCharacterImage profileOnlyEnv
            (snd (processAndUploadCharacterImage profileOnlyEnv afterProfilePut
                    ''/app/uploads/temp/1-b.png'' ''5500001234'' True backgroundOptions))
            ''/app/uploads/temp/1-b.png'' ''5500001234'' True backgroundOptions)) \<and>
    (\<forall>p. unlinkOk profileOnlyEnv p) \<and> (\<forall>c. dbSaveOk profileOnlyEnv c) \<and>
    db stagedWorld ''5500001234'' = None \<and>
    (\<exists>c. fst (createCharacter profileOnlyEnv stagedWorld createRequestWithBackground) = (201, CharacterJson c)
        \<and> char_id c = ''5500001234''
        \<and> imageUrl c = ''https://leome.b-cdn.net/characters/5500001234/profile-1700000011234.webp''
        \<and> backgroundImageUrl c = None
        \<and> db (snd (createCharacter profileOnlyEnv stagedWorld createRequestWithBackground)) =
            (db stagedWorld)(''5500001234'' \<mapsto> c)))"
proof -
  have down: "\<forall>u buf. \<not> axiosPut downEnv u buf" "\<forall>p. \<not> writeOk downEnv p"
    by (simp_all add: downEnv_def)
  have hA: "isl (fst (processAndUploadCharacterImage downEnv afterId ''/app/uploads/temp/1-a.png''
            ''5500001234'' False profileOptions)) \<and>
    isl (fst (processAndSaveCharacterImage downEnv
            (snd (processAndUploadCharacterImage downEnv afterId ''/app/uploads/temp/1-a.png''
                    ''5500001234'' False profileOptions))
            ''/app/uploads/temp/1-a.png'' ''5500001234'' False profileOptions))"
    using processAndUpload_isl [OF down(1)] processAndSave_isl [OF down(2)] by simp
  have gA: "''5500001234'' = fst (generateShortId downEnv stagedWorld)"
      "afterId = snd (generateShortId downEnv stagedWorld)"
    by (simp_all add: ex_generateShortId afterId_def)
  have gB: "''5500001234'' = fst (generateShortId profileOnlyEnv stagedWorld)"
      "afterId = snd (generateShortId profileOnlyEnv stagedWorld)"
    by (simp_all add: ex_generateShortId_profileOnly afterId_def)
  have reqB: "truthy (body_name createRequestWithBackground)"
      "truthy (body_description createRequestWithBackground)"
      "truthy (body_personality createRequestWithBackground)"
      "files_image createRequestWithBackground = Some ''/app/uploads/temp/1-a.png''"
      "files_backgroundImage createRequestWithBackground = Some ''/app/uploads/temp/1-b.png''"
      "baseUrl createRequestWithBackground = ''http://localhost:3000''"
    by (simp_all add: createRequestWithBackground_def createRequest_def truthy_def)
  have uB: "uploadWithFallback profileOnlyEnv afterId (baseUrl createRequestWithBackground)
           ''/app/uploads/temp/1-a.png'' ''5500001234'' False profileOptions =
      (Inr ''https://leome.b-cdn.net/characters/5500001234/profile-1700000011234.webp'', afterProfilePut)"
    by (simp only: reqB ex_profileOnly_upload)
  have w2B: "afterProfilePut = snd (uploadWithFallback profileOnlyEnv afterId
           (baseUrl createRequestWithBackground)
           ''/app/uploads/temp/1-a.png'' ''5500001234'' False profileOptions)"
    by (simp only: uB snd_conv)
  have rB: "runSharp profileOnlyEnv afterProfilePut ''/app/uploads/temp/1-b.png'' True backgroundOptions
      = Some [2]"
    by (simp add: runSharp_def profileOnlyEnv_def downEnv_def afterProfilePut_def stagedWorld_def
        resizeFor_def)
  have pB: "isl (fst (processAndUploadCharacterImage profileOnlyEnv afterProfilePut
            ''/app/uploads/temp/1-b.png'' ''5500001234'' True backgroundOptions))"
    unfolding processAndUpload_eq [OF rB ex_access_key(2)] by (simp add: profileOnlyEnv_def downEnv_def)
  have wB: "\<forall>p. \<not> writeOk profileOnlyEnv p" "\<forall>p. unlinkOk profileOnlyEnv p"
      "\<forall>c. dbSaveOk profileOnlyEnv c" "db stagedWorld ''5500001234'' = None"
    by (simp_all add: profileOnlyEnv_def downEnv_def stagedWorld_def)
  have hB: "fst (uploadWithFallback profileOnlyEnv afterId (baseUrl createRequestWithBackground)
           ''/app/uploads/temp/1-a.png'' ''5500001234'' False profileOptions) =
      Inr ''https://leome.b-cdn.net/characters/5500001234/profile-1700000011234.webp'' \<and>
    files_backgroundImage createRequestWithBackground = Some ''/app/uploads/temp/1-b.png'' \<and>
    isl (fst (processAndUploadCharacterImage profileOnlyEnv afterProfilePut
            ''/app/uploads/temp/1-b.png'' ''5500001234'' True backgroundOptions)) \<and>
    isl (fst (processAndSaveCharacterImage profileOnlyEnv
            (snd (processAndUploadCharacterImage profileOnlyEnv afterProfilePut
                    ''/app/uploads/temp/1-b.png'' ''5500001234'' True backgroundOptions))
            ''/app/uploads/temp/1-b.png'' ''5500001234'' True backgroundOptions)) \<and>
    (\<forall>p. unlinkOk profileOnlyEnv p) \<and> (\<forall>c. dbSaveOk profileOnlyEnv c) \<and>
    db stagedWorld ''5500001234'' = None"
    using uB reqB(5) pB processAndSave_isl [OF wB(1)] wB(2,3,4) by simp
  from create_storage_failure_asymmetry
    [OF ex_createRequest(1-4) gA refl,
      of "''https://leome.b-cdn.net''" "''/app/uploads/temp/1-b.png''"] hA
  have cA: "fst (createCharacter downEnv stagedWorld createRequest) = (500, Message ''Failed to upload image'') \<and>
    db (snd (createCharacter downEnv stagedWorld createRequest)) = db stagedWorld"
    by blast
  from create_storage_failure_asymmetry
    [OF reqB(1-4) gB w2B,
      of "''https://leome.b-cdn.net/characters/5500001234/profile-1700000011234.webp''"
         "''/app/uploads/temp/1-b.png''"] hB
  have cB: "\<exists>c. fst (createCharacter profileOnlyEnv stagedWorld createRequestWithBackground) = (201, CharacterJson c)
        \<and> char_id c = ''5500001234''
        \<and> imageUrl c = ''https://leome.b-cdn.net/characters/5500001234/profile-1700000011234.webp''
        \<and> backgroundImageUrl c = None
        \<and> db (snd (createCharacter profileOnlyEnv stagedWorld createRequestWithBackground)) =
            (db stagedWorld)(''5500001234'' \<mapsto> c)"
    by blast
  from hA cA hB cB show ?thesis by blast
qed

section \<open>Properties of update and delete\<close>

lemma db_updateImage [simp]: "db (snd (updateImage env w req cid c)) = db w"
proof (cases "files_image req")
  case None
  then show ?thesis by (simp add: updateImage_def)
next
  case (Some img)
  obtain r w1 where u: "uploadWithFallback env w (baseUrl req) img cid False profileOptions = (r, w1)"
    by (cases "uploadWithFallback env w (baseUrl req) img cid False profileOptions")
  obtain ok w2 where d: "unlinkIfExists env w1 img = (ok, w2)"
    by (cases "unlinkIfExists env w1 img")
  have "db w1 = db w"
    using db_uploadWithFallback [of env w "baseUrl req" img cid False profileOptions] u by simp
  moreover have "db w2 = db w1" using db_unlinkIfExists [of env w1 img] d by simp
  ultimately show ?thesis using Some u d
    by (cases ok; cases r) (simp_all add: updateImage_def)
qed

lemma db_updateBackgroundImage [simp]: "db (snd (updateBackgroundImage env w req cid c)) = db w"
proof (cases "files_backgroundImage req")
  case None
  then show ?thesis by (simp add: updateBackgroundImage_def)
next
  case (Some bg)
  obtain r w1 where u: "uploadWithFallback env w (baseUrl req) bg cid True backgroundOptions = (r, w1)"
    by (cases "uploadWithFallback env w (baseUrl req) bg cid True backgroundOptions")
  obtain ok w2 where d: "unlinkIfExists env w1 bg = (ok, w2)"
    by (cases "unlinkIfExists env w1 bg")
  have "db w1 = db w"
    using db_uploadWithFallback [of env w "baseUrl req" bg cid True backgroundOptions] u by simp
  moreover have "db w2 = db w1" using db_unlinkIfExists [of env w1 bg] d by simp
  ultimately show ?thesis using Some u d
    by (cases ok; cases r) (simp_all add: updateBackgroundImage_def)
qed

lemma sameTextFields_refl [simp]: "sameTextFields c c"
  by (simp add: sameTextFields_def)

lemma sameTextFields_trans: "sameTextFields a b \<Longrightarrow> sameTextFields b c \<Longrightarrow> sameTextFields a c"
  by (simp add: sameTextFields_def)

lemma sameTextFields_updates [simp]:
  "sameTextFields (c\<lparr>imageUrl := u\<rparr>) c"
  "sameTextFields (c\<lparr>backgroundImageUrl := v\<rparr>) c"
  "sameTextFields (c\<lparr>updatedAt := n\<rparr>) c"
  by (simp_all add: sameTextFields_def)

text \<open>
  A block that falls through has changed the URL it is about and nothing else, and not
  even that when no file came with the request.
\<close>

lemma updateImage_Continue:
  assumes "fst (updateImage env w req cid c) = Continue c'"
  shows "sameTextFields c' c \<and> backgroundImageUrl c' = backgroundImageUrl c \<and>
         (files_image req = None \<longrightarrow> imageUrl c' = imageUrl c)"
proof (cases "files_image req")
  case None
  with assms have "c' = c" by (simp add: updateImage_def)
  then show ?thesis by simp
next
  case (Some img)
  obtain r w1 where u: "uploadWithFallback env w (baseUrl req) img cid False profileOptions = (r, w1)"
    by (cases "uploadWithFallback env w (baseUrl req) img cid False profileOptions")
  obtain ok w2 where d: "unlinkIfExists env w1 img = (ok, w2)"
    by (cases "unlinkIfExists env w1 img")
  have e: "fst (updateImage env w req cid c) =
     (if ok then (case r of Inl e \<Rightarrow> Returned (500, Message ''Failed to upload updated image'')
                  | Inr url \<Rightarrow> Continue (c\<lparr>imageUrl := url\<rparr>))
      else Threw)"
    using Some u d by (cases ok; cases r) (simp_all add: updateImage_def)
  show ?thesis
  proof (cases r)
    case (Inl x)
    with e assms show ?thesis by (cases ok) simp_all
  next
    case (Inr url)
    with e assms have "c' = c\<lparr>imageUrl := url\<rparr>" by (cases ok) simp_all
    with Some show ?thesis by simp
  qed
qed

lemma updateBackgroundImage_Continue:
  assumes "fst (updateBackgroundImage env w req cid c) = Continue c'"
  shows "sameTextFields c' c \<and> imageUrl c' = imageUrl c \<and>
         (files_backgroundImage req = None \<longrightarrow> backgroundImageUrl c' = backgroundImageUrl c)"
proof (cases "files_backgroundImage req")
  case None
  with assms have "c' = c" by (simp add: updateBackgroundImage_def)
  then show ?thesis by simp
next
  case (Some bg)
  obtain r w1 where u: "uploadWithFallback env w (baseUrl req) bg cid True backgroundOptions = (r, w1)"
    by (cases "uploadWithFallback env w (baseUrl req) bg cid True backgroundOptions")
  obtain ok w2 where d: "unlinkIfExists env w1 bg = (ok, w2)"
    by (cases "unlinkIfExists env w1 bg")
  have e: "fst (updateBackgroundImage env w req cid c) =
     (if ok then (case r of Inl e \<Rightarrow> Continue c
                  | Inr url \<Rightarrow> Continue (c\<lparr>backgroundImageUrl := Some url\<rparr>))
      else Threw)"
    using Some u d by (cases ok; cases r) (simp_all add: updateBackgroundImage_def)
  show ?thesis
  proof (cases r)
    case (Inl x)
    with e assms have "c' = c" by (cases ok) simp_all
    then show ?thesis by simp
  next
    case (Inr url)
    with e assms have "c' = c\<lparr>backgroundImageUrl := Some url\<rparr>" by (cases ok) simp_all
    with Some show ?thesis by simp
  qed
qed

lemma db_touchAndSave:
  "db (snd (touchAndSave env w cid c)) = db w \<or>
   db (snd (touchAndSave env w cid c)) = (db w)(cid \<mapsto> c\<lparr>updatedAt := dateNow env (clock w)\<rparr>)"
  by (simp add: touchAndSave_def saveFound_def Date_now_def Let_def)

lemma updateCharacter_db:
  "db (snd (updateCharacter env w req)) = db w \<or>
   (\<exists>c0 c. db w (params_id req) = Some c0 \<and>
      db (snd (updateCharacter env w req)) = (db w)(params_id req \<mapsto> c) \<and>
      sameTextFields c (updateTextFields req (parseListField env (body_traits req))
             (parseListField env (body_interests req)) c0) \<and>
      (files_image req = None \<longrightarrow> imageUrl c = imageUrl c0) \<and>
      (files_backgroundImage req = None \<longrightarrow> backgroundImageUrl c = backgroundImageUrl c0))"
proof (cases "findOne env w (params_id req)")
  case FindThrows
  then show ?thesis by (simp add: updateCharacter_def)
next
  case NotFound
  then show ?thesis by (simp add: updateCharacter_def)
next
  case (Found c0)
  then have c0: "db w (params_id req) = Some c0"
    by (simp add: findOne_def split: if_splits option.splits)
  define t where "t = updateTextFields req (parseListField env (body_traits req))
             (parseListField env (body_interests req)) c0"
  have t_img: "imageUrl t = imageUrl c0" "backgroundImageUrl t = backgroundImageUrl c0"
    by (simp_all add: t_def updateTextFields_def Let_def split: option.splits)
  obtain o1 w1 where u1: "updateImage env w req (params_id req) t = (o1, w1)"
    by (cases "updateImage env w req (params_id req) t")
  have dw1: "db w1 = db w" using db_updateImage [of env w req "params_id req" t] u1 by simp
  show ?thesis
  proof (cases o1)
    case Threw
    with Found u1 dw1 show ?thesis by (simp add: updateCharacter_def t_def)
  next
    case (Returned resp)
    with Found u1 dw1 show ?thesis by (simp add: updateCharacter_def t_def)
  next
    case (Continue c1)
    with u1 have k1: "sameTextFields c1 t" "backgroundImageUrl c1 = backgroundImageUrl t"
        "files_image req = None \<longrightarrow> imageUrl c1 = imageUrl t"
      using updateImage_Continue [of env w req "params_id req" t c1] by simp_all
    obtain o2 w2 where u2: "updateBackgroundImage env w1 req (params_id req) c1 = (o2, w2)"
      by (cases "updateBackgroundImage env w1 req (params_id req) c1")
    have dw2: "db w2 = db w1"
      using db_updateBackgroundImage [of env w1 req "params_id req" c1] u2 by simp
    show ?thesis
    proof (cases o2)
      case Threw
      with Found u1 Continue u2 dw1 dw2 show ?thesis by (simp add: updateCharacter_def t_def)
    next
      case (Returned resp)
      with Found u1 Continue u2 dw1 dw2 show ?thesis by (simp add: updateCharacter_def t_def)
    next
      case c2: (Continue c2)
      with u2 have k2: "sameTextFields c2 c1" "imageUrl c2 = imageUrl c1"
          "files_backgroundImage req = None \<longrightarrow> backgroundImageUrl c2 = backgroundImageUrl c1"
        using updateBackgroundImage_Continue [of env w1 req "params_id req" c1 c2] by simp_all
      have res: "snd (updateCharacter env w req) = snd (touchAndSave env w2 (params_id req) c2)"
        using Found u1 Continue u2 c2 by (simp add: updateCharacter_def t_def)
      define c where "c = c2\<lparr>updatedAt := dateNow env (clock w2)\<rparr>"
      have "sameTextFields c c2" by (simp add: c_def)
      with k1(1) k2(1) have same: "sameTextFields c t"
        by (blast intro: sameTextFields_trans)
      have keep: "files_image req = None \<longrightarrow> imageUrl c = imageUrl c0"
          "files_backgroundImage req = None \<longrightarrow> backgroundImageUrl c = backgroundImageUrl c0"
        using k1(2,3) k2(2,3) t_img by (simp_all add: c_def)
      from db_touchAndSave [of env w2 "params_id req" c2] res dw1 dw2
      have "db (snd (updateCharacter env w req)) = db w \<or>
            db (snd (updateCharacter env w req)) = (db w)(params_id req \<mapsto> c)"
        by (simp add: c_def)
      then show ?thesis
      proof
        assume "db (snd (updateCharacter env w req)) = db w"
        then show ?thesis by (rule disjI1)
      next
        assume e: "db (snd (updateCharacter env w req)) = (db w)(params_id req \<mapsto> c)"
        from c0 e same keep
        have "db w (params_id req) = Some c0 \<and>
          db (snd (updateCharacter env w req)) = (db w)(params_id req \<mapsto> c) \<and>
          sameTextFields c (updateTextFields req (parseListField env (body_traits req))
             (parseListField env (body_interests req)) c0) \<and>
          (files_image req = None \<longrightarrow> imageUrl c = imageUrl c0) \<and>
          (files_backgroundImage req = None \<longrightarrow> backgroundImageUrl c = backgroundImageUrl c0)"
          unfolding t_def by simp
        then have "\<exists>c. db w (params_id req) = Some c0 \<and>
          db (snd (updateCharacter env w req)) = (db w)(params_id req \<mapsto> c) \<and>
          sameTextFields c (updateTextFields req (parseListField env (body_traits req))
             (parseListField env (body_interests req)) c0) \<and>
          (files_image req = None \<longrightarrow> imageUrl c = imageUrl c0) \<and>
          (files_backgroundImage req = None \<longrightarrow> backgroundImageUrl c = backgroundImageUrl c0)"
          by (rule exI)
        then have "\<exists>c0 c. db w (params_id req) = Some c0 \<and>
          db (snd (updateCharacter env w req)) = (db w)(params_id req \<mapsto> c) \<and>
          sameTextFields c (updateTextFields req (parseListField env (body_traits req))
             (parseListField env (body_interests req)) c0) \<and>
          (files_image req = None \<longrightarrow> imageUrl c = imageUrl c0) \<and>
          (files_backgroundImage req = None \<longrightarrow> backgroundImageUrl c = backgroundImageUrl c0)"
          by (rule exI)
        then show ?thesis by (rule disjI2)
      qed
    qed
  qed
qed

lemma parseListField_falsy: "\<not> truthy v \<Longrightarrow> parseListField env v = None"
  by (simp add: parseListField_def truthy_def split: option.splits)

lemma updateTextFields_urls:
  "imageUrl (updateTextFields req tv iv c) = imageUrl c"
  "backgroundImageUrl (updateTextFields req tv iv c) = backgroundImageUrl c"
  by (simp_all add: updateTextFields_def Let_def split: option.splits)

lemma updateTextFields_keeps:
  "\<not> truthy (body_name req) \<Longrightarrow> name (updateTextFields req tv iv c) = name c"
  "\<not> truthy (body_description req) \<Longrightarrow> description (updateTextFields req tv iv c) = description c"
  "\<not> truthy (body_personality req) \<Longrightarrow> personality (updateTextFields req tv iv c) = personality c"
  "\<not> truthy (body_accentColor req) \<Longrightarrow> accentColor (updateTextFields req tv iv c) = accentColor c"
  "\<not> truthy (body_textColor req) \<Longrightarrow> textColor (updateTextFields req tv iv c) = textColor c"
  "\<not> truthy (body_age req) \<Longrightarrow> age (updateTextFields req tv iv c) = age c"
  "\<not> truthy (body_location req) \<Longrightarrow> location (updateTextFields req tv iv c) = location c"
  "\<not> truthy (body_responseTime req) \<Longrightarrow> responseTime (updateTextFields req tv iv c) = responseTime c"
  "tv = None \<Longrightarrow> traits (updateTextFields req tv iv c) = traits c"
  "iv = None \<Longrightarrow> interests (updateTextFields req tv iv c) = interests c"
  by (simp_all add: updateTextFields_def Let_def split: option.splits)

text \<open>A field whose body value is absent or empty is stored as it was.\<close>

lemma updateCharacter_keeps:
  "(files_image req = None \<and> files_backgroundImage req = None \<longrightarrow>
      map_option imageUrl (db (snd (updateCharacter env w req)) i) = map_option imageUrl (db w i) \<and>
      map_option backgroundImageUrl (db (snd (updateCharacter env w req)) i)
        = map_option backgroundImageUrl (db w i))
   \<and> (\<not> truthy (body_name req) \<longrightarrow>
        map_option name (db (snd (updateCharacter env w req)) i) = map_option name (db w i))
   \<and> (\<not> truthy (body_description req) \<longrightarrow>
        map_option description (db (snd (updateCharacter env w req)) i) = map_option description (db w i))
   \<and> (\<not> truthy (body_personality req) \<longrightarrow>
        map_option personality (db (snd (updateCharacter env w req)) i) = map_option personality (db w i))
   \<and> (\<not> truthy (body_accentColor req) \<longrightarrow>
        map_option accentColor (db (snd (updateCharacter env w req)) i) = map_option accentColor (db w i))
   \<and> (\<not> truthy (body_textColor req) \<longrightarrow>
        map_option textColor (db (snd (updateCharacter env w req)) i) = map_option textColor (db w i))
   \<and> (\<not> truthy (body_age req) \<longrightarrow>
        map_option age (db (snd (updateCharacter env w req)) i) = map_option age (db w i))
   \<and> (\<not> truthy (body_location req) \<longrightarrow>
        map_option location (db (snd (updateCharacter env w req)) i) = map_option location (db w i))
   \<and> (\<not> truthy (body_responseTime req) \<longrightarrow>
        map_option responseTime (db (snd (updateCharacter env w req)) i) = map_option responseTime (db w i))
   \<and> (\<not> truthy (body_traits req) \<longrightarrow>
        map_option traits (db (snd (updateCharacter env w req)) i) = map_option traits (db w i))
   \<and> (\<not> truthy (body_interests req) \<longrightarrow>
        map_option interests (db (snd (updateCharacter env w req)) i) = map_option interests (db w i))"
  using updateCharacter_db [of env w req]
proof (elim disjE exE conjE)
  assume "db (snd (updateCharacter env w req)) = db w"
  then show ?thesis by simp
next
  fix c0 c
  let ?t = "updateTextFields req (parseListField env (body_traits req))
             (parseListField env (body_interests req)) c0"
  assume c0: "db w (params_id req) = Some c0"
    and e: "db (snd (updateCharacter env w req)) = (db w)(params_id req \<mapsto> c)"
    and same: "sameTextFields c ?t"
    and k1: "files_image req = None \<longrightarrow> imageUrl c = imageUrl c0"
    and k2: "files_backgroundImage req = None \<longrightarrow> backgroundImageUrl c = backgroundImageUrl c0"
  have urls: "files_image req = None \<and> files_backgroundImage req = None \<longrightarrow>
      map_option imageUrl (db (snd (updateCharacter env w req)) i) = map_option imageUrl (db w i) \<and>
      map_option backgroundImageUrl (db (snd (updateCharacter env w req)) i)
        = map_option backgroundImageUrl (db w i)"
    using k1 k2 by (simp only: e) (simp add: c0)
  have f1: "\<not> truthy (body_name req) \<longrightarrow>
        map_option name (db (snd (updateCharacter env w req)) i) = map_option name (db w i)"
    using same updateTextFields_keeps(1) [of req _ _ c0]
    by (simp only: e) (simp add: c0 sameTextFields_def)
  have f2: "\<not> truthy (body_description req) \<longrightarrow>
        map_option description (db (snd (updateCharacter env w req)) i) = map_option description (db w i)"
    using same updateTextFields_keeps(2) [of req _ _ c0]
    by (simp only: e) (simp add: c0 sameTextFields_def)
  have f3: "\<not> truthy (body_personality req) \<longrightarrow>
        map_option personality (db (snd (updateCharacter env w req)) i) = map_option personality (db w i)"
    using same updateTextFields_keeps(3) [of req _ _ c0]
    by (simp only: e) (simp add: c0 sameTextFields_def)
  have f4: "\<not> truthy (body_accentColor req) \<longrightarrow>
        map_option accentColor (db (snd (updateCharacter env w req)) i) = map_option accentColor (db w i)"
    using same updateTextFields_keeps(4) [of req _ _ c0]
    by (simp only: e) (simp add: c0 sameTextFields_def)
  have f5: "\<not> truthy (body_textColor req) \<longrightarrow>
        map_option textColor (db (snd (updateCharacter env w req)) i) = map_option textColor (db w i)"
    using same updateTextFields_keeps(5) [of req _ _ c0]
    by (simp only: e) (simp add: c0 sameTextFields_def)
  have f6: "\<not> truthy (body_age req) \<longrightarrow>
        map_option age (db (snd (updateCharacter env w req)) i) = map_option age (db w i)"
    using same updateTextFields_keeps(6) [of req _ _ c0]
    by (simp only: e) (simp add: c0 sameTextFields_def)
  have f7: "\<not> truthy (body_location req) \<longrightarrow>
        map_option location (db (snd (updateCharacter env w req)) i) = map_option location (db w i)"
    using same updateTextFields_keeps(7) [of req _ _ c0]
    by (simp only: e) (simp add: c0 sameTextFields_def)
  have f8: "\<not> truthy (body_responseTime req) \<longrightarrow>
        map_option responseTime (db (snd (updateCharacter env w req)) i) = map_option responseTime (db w i)"
    using same updateTextFields_keeps(8) [of req _ _ c0]
    by (simp only: e) (simp add: c0 sameTextFields_def)
  have f9: "\<not> truthy (body_traits req) \<longrightarrow>
        map_option traits (db (snd (updateCharacter env w req)) i) = map_option traits (db w i)"
    using same updateTextFields_keeps(9) [of "parseListField env (body_traits req)" req _ c0]
      parseListField_falsy [of "body_traits req" env]
    by (simp only: e) (simp add: c0 sameTextFields_def)
  have f10: "\<not> truthy (body_interests req) \<longrightarrow>
        map_option interests (db (snd (updateCharacter env w req)) i) = map_option interests (db w i)"
    using same updateTextFields_keeps(10) [of "parseListField env (body_interests req)" req _ c0]
      parseListField_falsy [of "body_interests req" env]
    by (simp only: e) (simp add: c0 sameTextFields_def)
  from urls f1 f2 f3 f4 f5 f6 f7 f8 f9 f10 show ?thesis by blast
qed

lemma ex_update_succeeds:
  "fst (fst (updateCharacter downEnv storedWorld emptyUpdate)) = 200"
  by (simp add: updateCharacter_def findOne_def updateImage_def updateBackgroundImage_def
      touchAndSave_def saveFound_def Date_now_def Let_def downEnv_def storedWorld_def emptyUpdate_def)

lemma admin_delete_keeps_updatedAt:
  "map_option updatedAt (db (snd (admin_deleteCharacter env w req)) i) = map_option updatedAt (db w i)"
  by (simp add: admin_deleteCharacter_def findOne_def saveFound_def Let_def
      split: option.splits)

text \<open>
  Claim C8. The admin endpoint's soft delete of a stored character answers 200 and stores
  the document with \<open>isActive\<close> false and the old \<open>updatedAt\<close> of 5, although the clock
  reads 1700000001234; the character controller's soft delete of the same document stores
  that clock reading.
\<close>

theorem admin_delete_leaves_updatedAt:
  "fst (admin_deleteCharacter downEnv storedWorld deleteRequest)
     = (200, Message ''Character deleted successfully'')
   \<and> db (snd (admin_deleteCharacter downEnv storedWorld deleteRequest)) ''1234567890''
     = Some (storedCharacter\<lparr>isActive := False\<rparr>)
   \<and> updatedAt (storedCharacter\<lparr>isActive := False\<rparr>) = 5
   \<and> dateNow downEnv (clock storedWorld) = 1700000001234
   \<and> db (snd (deleteCharacter downEnv storedWorld deleteRequest)) ''1234567890''
     = Some (storedCharacter\<lparr>isActive := False, updatedAt := 1700000001234\<rparr>)"
proof -
  have f: "findOne downEnv storedWorld ''1234567890'' = Found storedCharacter"
    by (simp add: findOne_def downEnv_def storedWorld_def)
  have s: "dbSaveOk downEnv c" for c
    by (simp add: downEnv_def)
  have p: "params_id deleteRequest = ''1234567890''"
    by (simp add: deleteRequest_def emptyUpdate_def)
  have a: "admin_deleteCharacter downEnv storedWorld deleteRequest =
      ((200, Message ''Character deleted successfully''),
       storedWorld\<lparr>db := (db storedWorld)(''1234567890'' \<mapsto> storedCharacter\<lparr>isActive := False\<rparr>)\<rparr>)"
    by (simp add: admin_deleteCharacter_def f p s saveFound_def Let_def)
  have d: "deleteCharacter downEnv storedWorld deleteRequest =
      ((200, Message ''Character deleted successfully''),
       storedWorld\<lparr>clock := Suc (clock storedWorld),
         db := (db storedWorld)(''1234567890'' \<mapsto>
                 storedCharacter\<lparr>isActive := False, updatedAt := dateNow downEnv (clock storedWorld)\<rparr>)\<rparr>)"
    by (simp add: deleteCharacter_def f p s saveFound_def Date_now_def Let_def)
  have n: "dateNow downEnv (clock storedWorld) = 1700000001234"
    by (simp add: downEnv_def storedWorld_def stagedWorld_def)
  show ?thesis
    by (simp add: a d n) (simp add: storedCharacter_def)
qed

section \<open>Properties of the upload with fallback\<close>

text \<open>What the services ask sharp for, with the options the controller passes and without any.\<close>

lemma resizeFor_requests:
  "resizeFor False profileOptions = \<lparr> width = 400, height = 400, fit = Cover, withoutEnlargement = False \<rparr>"
  "resizeFor True backgroundOptions = \<lparr> width = 1200, height = 800, fit = Inside, withoutEnlargement = True \<rparr>"
  "resizeFor False \<lparr> opt_width = None, opt_height = None, opt_quality = None \<rparr>
     = \<lparr> width = 400, height = 400, fit = Cover, withoutEnlargement = False \<rparr>"
  "resizeFor True \<lparr> opt_width = None, opt_height = None, opt_quality = None \<rparr>
     = \<lparr> width = 1200, height = 800, fit = Inside, withoutEnlargement = True \<rparr>"
  by (simp_all add: resizeFor_def orDefault_def profileOptions_def backgroundOptions_def)

lemma normalizePath_key [simp]:
  "normalizePath (characterImagePath cid b t) = characterImagePath cid b t"
  by (simp add: normalizePath_def startsWith_def characterImagePath_def)

lemma saveFile_Inr:
  assumes "fst (saveFile env w buf p) = Inr u"
  shows "u = getPublicUrl p"
    and "files (snd (saveFile env w buf p)) (getLocalPath (cfg env) p) = Some buf"
    and "trace (snd (saveFile env w buf p)) \<noteq> []"
    and "last (trace (snd (saveFile env w buf p))) = WriteFile (getLocalPath (cfg env) p) buf"
  using assms by (auto simp: saveFile_def emit_def Let_def split: if_splits)

text \<open>
  Claim C1, as the code has it. An upload calls the remote service first. When sharp
  rejects the staged file, both services fail and no I/O is made. Otherwise the remote
  service reads the clock for its key and, if the access key is set, PUTs the processed
  buffer under that key; when the PUT succeeds, the CDN URL of that key is returned and
  nothing but the clock and that one PUT has happened. Only when the remote service fails
  (the access key is unset, so that no PUT is made, or the PUT fails) is the local service
  called: it processes the same staged file again into an equal buffer and saves it under a
  key of the same owner and role built from the next clock reading; when that save
  succeeds, the result is the request's base URL followed by \<open>/images/\<close> and this
  second key, and the buffer is on the local disk.
\<close>

theorem upload_fallback_order:
  assumes k0: "key0 = characterImagePath cid b (dateNow env (clock w))"
    and k1: "key1 = characterImagePath cid b (dateNow env (Suc (clock w)))"
    and wR: "wR = w\<lparr>clock := Suc (clock w),
               trace := trace w @ [HttpPut (getStorageUrl (cfg env) key0) buf ''image/webp'']\<rparr>"
    and wF: "wF = (case storageAccessKey (cfg env) of
                     None \<Rightarrow> w\<lparr>clock := Suc (Suc (clock w))\<rparr>
                   | Some k \<Rightarrow> wR\<lparr>clock := Suc (Suc (clock w))\<rparr>)"
    and cz: "cz = (case storageAccessKey (cfg env) of None \<Rightarrow> ApiKeyUnset | Some k \<Rightarrow> PutFailed)"
  shows "(runSharp env w img b opts = None \<longrightarrow>
            uploadWithFallback env w base img cid b opts =
              (Inl (ProcessAndUploadError SharpFailed, ProcessAndSaveError SharpFailed), w))
       \<and> (runSharp env w img b opts = Some buf \<and> storageAccessKey (cfg env) \<noteq> None
            \<and> axiosPut env (getStorageUrl (cfg env) key0) buf \<longrightarrow>
            uploadWithFallback env w base img cid b opts = (Inr (getCdnUrl (cfg env) key0), wR))
       \<and> (runSharp env w img b opts = Some buf
            \<and> (storageAccessKey (cfg env) = None \<or> \<not> axiosPut env (getStorageUrl (cfg env) key0) buf)
            \<longrightarrow>
            uploadWithFallback env w base img cid b opts =
              (case saveFile env wF buf key1 of
                 (Inl c, w2) \<Rightarrow> (Inl (ProcessAndUploadError cz, ProcessAndSaveError c), w2)
               | (Inr u, w2) \<Rightarrow> (Inr (base @ u), w2)))
       \<and> (runSharp env w img b opts = Some buf
            \<and> (storageAccessKey (cfg env) = None \<or> \<not> axiosPut env (getStorageUrl (cfg env) key0) buf)
            \<and> \<not> isl (fst (saveFile env wF buf key1)) \<longrightarrow>
            fst (uploadWithFallback env w base img cid b opts) = Inr (base @ ''/images/'' @ key1)
            \<and> files (snd (uploadWithFallback env w base img cid b opts)) (getLocalPath (cfg env) key1)
                = Some buf
            \<and> last (trace (snd (uploadWithFallback env w base img cid b opts)))
                = WriteFile (getLocalPath (cfg env) key1) buf)"
proof -
  have none: "runSharp env w img b opts = None \<longrightarrow>
      uploadWithFallback env w base img cid b opts =
        (Inl (ProcessAndUploadError SharpFailed, ProcessAndSaveError SharpFailed), w)"
    by (simp add: uploadWithFallback_def processAndUpload_sharp_fails processAndSave_sharp_fails)
  have ok: "runSharp env w img b opts = Some buf \<and> storageAccessKey (cfg env) \<noteq> None
      \<and> axiosPut env (getStorageUrl (cfg env) key0) buf \<longrightarrow>
      uploadWithFallback env w base img cid b opts = (Inr (getCdnUrl (cfg env) key0), wR)"
    using k0 wR by (auto simp: uploadWithFallback_def processAndUpload_eq)
  have fails: "uploadWithFallback env w base img cid b opts =
        (case saveFile env wF buf key1 of
           (Inl c, w2) \<Rightarrow> (Inl (ProcessAndUploadError cz, ProcessAndSaveError c), w2)
         | (Inr u, w2) \<Rightarrow> (Inr (base @ u), w2))"
    if a: "runSharp env w img b opts = Some buf"
      "storageAccessKey (cfg env) = None \<or> \<not> axiosPut env (getStorageUrl (cfg env) key0) buf"
  proof -
    define w1 where "w1 = (case storageAccessKey (cfg env) of
                     None \<Rightarrow> w\<lparr>clock := Suc (clock w)\<rparr> | Some k \<Rightarrow> wR)"
    have r: "processAndUploadCharacterImage env w img cid b opts =
        (Inl (ProcessAndUploadError cz), w1)"
    proof (cases "storageAccessKey (cfg env)")
      case None
      with a(1) cz show ?thesis by (simp add: processAndUpload_keyless w1_def)
    next
      case (Some k)
      with a k0 wR cz show ?thesis by (simp add: processAndUpload_eq w1_def)
    qed
    have c1: "clock w1 = Suc (clock w)" and f1: "files w1 = files w"
      using wR by (simp_all add: w1_def split: option.splits)
    have s: "runSharp env w1 img b opts = Some buf"
      using a(1) f1 by (simp add: runSharp_def)
    have wF1: "w1\<lparr>clock := Suc (clock w1)\<rparr> = wF"
      using wF wR by (simp add: w1_def split: option.splits)
    have l: "processAndSaveCharacterImage env w1 img cid b opts =
        (case saveFile env wF buf key1 of
           (Inl c, w2) \<Rightarrow> (Inl (ProcessAndSaveError c), w2)
         | (Inr url, w2) \<Rightarrow> (Inr url, w2))"
      unfolding processAndSave_eq [OF s] wF1 using c1 k1 by simp
    show ?thesis
      by (simp add: uploadWithFallback_def r l split: prod.splits sum.splits)
  qed
  have saved: "fst (uploadWithFallback env w base img cid b opts) = Inr (base @ ''/images/'' @ key1)
        \<and> files (snd (uploadWithFallback env w base img cid b opts)) (getLocalPath (cfg env) key1)
            = Some buf
        \<and> last (trace (snd (uploadWithFallback env w base img cid b opts)))
            = WriteFile (getLocalPath (cfg env) key1) buf"
    if a: "runSharp env w img b opts = Some buf"
      "storageAccessKey (cfg env) = None \<or> \<not> axiosPut env (getStorageUrl (cfg env) key0) buf"
      "\<not> isl (fst (saveFile env wF buf key1))"
  proof -
    obtain res w2 where sf: "saveFile env wF buf key1 = (res, w2)"
      by (cases "saveFile env wF buf key1")
    with a(3) obtain u where u: "res = Inr u" by (cases res) simp_all
    have facts: "u = getPublicUrl key1" "files w2 (getLocalPath (cfg env) key1) = Some buf"
        "last (trace w2) = WriteFile (getLocalPath (cfg env) key1) buf"
      using saveFile_Inr(1,2,4) [of env wF buf key1 u] sf u by simp_all
    have e: "uploadWithFallback env w base img cid b opts = (Inr (base @ u), w2)"
      using fails [OF a(1,2)] by (simp add: sf u)
    have pub: "getPublicUrl key1 = ''/images/'' @ key1"
      using k1 by (simp add: getPublicUrl_def storageUrlBase_def)
    from e facts pub show ?thesis by simp
  qed
  from none ok fails saved show ?thesis by blast
qed

lemma ex_runSharp_staged:
  "runSharp downEnv stagedWorld ''/missing.png'' False profileOptions = None"
  "runSharp profileOnlyEnv stagedWorld ''/app/uploads/temp/1-a.png'' False profileOptions = Some [1]"
  "runSharp localEnv stagedWorld ''/app/uploads/temp/1-a.png'' False profileOptions = Some [1]"
  by (simp_all add: runSharp_def localEnv_def profileOnlyEnv_def downEnv_def stagedWorld_def
      resizeFor_def)

lemma ex_keys:
  "characterImagePath ''42'' False (dateNow downEnv 0) = ''characters/42/profile-1700000001234.webp''"
  "characterImagePath ''42'' False (dateNow downEnv (Suc 0)) = ''characters/42/profile-1700000011234.webp''"
  by (simp_all add: characterImagePath_def imageType_def downEnv_def showNat.simps digitChar_def)

lemma ex_env_fields:
  "dateNow localEnv = dateNow downEnv" "dateNow profileOnlyEnv = dateNow downEnv"
  "cfg localEnv = bunnyConfig" "cfg profileOnlyEnv = bunnyConfig" "cfg downEnv = bunnyConfig"
  "axiosPut localEnv u buf = False" "axiosPut profileOnlyEnv u buf = (buf = [1])"
  "writeOk localEnv p" "mkdirOk localEnv p"
  "clock stagedWorld = 0" "trace stagedWorld = []" "dirs stagedWorld = {}"
  by (simp_all add: localEnv_def profileOnlyEnv_def downEnv_def stagedWorld_def)

lemma ex_local_fallback:
  "uploadWithFallback localEnv stagedWorld ''http://localhost:3000''
      ''/app/uploads/temp/1-a.png'' ''42'' False profileOptions =
   (Inr ''http://localhost:3000/images/characters/42/profile-1700000011234.webp'', afterLocalSave)"
proof -
  let ?wR = "stagedWorld\<lparr>clock := 1, trace :=
       [HttpPut ''https://storage.bunnycdn.com/leome/characters/42/profile-1700000001234.webp'' [1] ''image/webp'']\<rparr>"
  have r: "processAndUploadCharacterImage localEnv stagedWorld ''/app/uploads/temp/1-a.png'' ''42''
      False profileOptions = (Inl (ProcessAndUploadError PutFailed), ?wR)"
    unfolding processAndUpload_eq [OF ex_runSharp_staged(3) ex_access_key(3)]
    by (simp add: ex_env_fields ex_keys getStorageUrl_def normalizePath_def startsWith_def
        bunnyConfig_def)
  have s: "runSharp localEnv ?wR ''/app/uploads/temp/1-a.png'' False profileOptions = Some [1]"
    by (simp add: runSharp_def localEnv_def downEnv_def stagedWorld_def resizeFor_def)
  have l: "processAndSaveCharacterImage localEnv ?wR ''/app/uploads/temp/1-a.png'' ''42''
      False profileOptions =
      (Inr ''/images/characters/42/profile-1700000011234.webp'', afterLocalSave)"
    unfolding processAndSave_eq [OF s]
    by (simp add: ex_env_fields ex_keys saveFile_def emit_def Let_def afterLocalSave_def
        getLocalPath_def getPublicUrl_def storageUrlBase_def normalizePath_def startsWith_def
        dirname_def bunnyConfig_def)
  show ?thesis
    by (simp only: uploadWithFallback_def r l prod.case sum.case) simp
qed

text \<open>
  With the CDN down and the clock advancing between the two attempts, the key of the
  local write differs from the key of the PUT that failed.
\<close>

theorem upload_fallback_key_counterexample:
  "uploadWithFallback localEnv stagedWorld ''http://localhost:3000''
      ''/app/uploads/temp/1-a.png'' ''42'' False profileOptions =
     (Inr ''http://localhost:3000/images/characters/42/profile-1700000011234.webp'', afterLocalSave)
   \<and> trace afterLocalSave =
     [HttpPut (getStorageUrl bunnyConfig ''characters/42/profile-1700000001234.webp'') [1] ''image/webp'',
      MkDir ''/app/public/images/characters/42'',
      WriteFile (getLocalPath bunnyConfig ''characters/42/profile-1700000011234.webp'') [1]]
   \<and> ''characters/42/profile-1700000001234.webp'' \<noteq> ''characters/42/profile-1700000011234.webp''"
  by (simp add: ex_local_fallback)
     (simp add: afterLocalSave_def getStorageUrl_def getLocalPath_def normalizePath_def
        startsWith_def bunnyConfig_def)

lemma ex_keyless_fallback:
  "uploadWithFallback keylessEnv stagedWorld ''http://localhost:3000''
      ''/app/uploads/temp/1-a.png'' ''42'' False profileOptions =
   (Inr ''http://localhost:3000/images/characters/42/profile-1700000011234.webp'', afterKeylessSave)"
proof -
  have k: "storageAccessKey (cfg keylessEnv) = None"
    by (simp add: keylessEnv_def)
  have f: "dateNow keylessEnv = dateNow downEnv" "writeOk keylessEnv p" "mkdirOk keylessEnv p"
    "storageDir (cfg keylessEnv) = ''/app/public/images''" for p
    by (simp_all add: keylessEnv_def localEnv_def downEnv_def bunnyConfig_def)
  have s0: "runSharp keylessEnv stagedWorld ''/app/uploads/temp/1-a.png'' False profileOptions = Some [1]"
    by (simp add: runSharp_def keylessEnv_def localEnv_def downEnv_def stagedWorld_def resizeFor_def)
  have r: "processAndUploadCharacterImage keylessEnv stagedWorld ''/app/uploads/temp/1-a.png'' ''42''
      False profileOptions = (Inl (ProcessAndUploadError ApiKeyUnset), stagedWorld\<lparr>clock := 1\<rparr>)"
    unfolding processAndUpload_keyless [OF s0 k] by (simp add: ex_env_fields)
  have s: "runSharp keylessEnv (stagedWorld\<lparr>clock := 1\<rparr>) ''/app/uploads/temp/1-a.png'' False
      profileOptions = Some [1]"
    by (simp add: runSharp_def keylessEnv_def localEnv_def downEnv_def stagedWorld_def resizeFor_def)
  have l: "processAndSaveCharacterImage keylessEnv (stagedWorld\<lparr>clock := 1\<rparr>)
      ''/app/uploads/temp/1-a.png'' ''42'' False profileOptions =
      (Inr ''/images/characters/42/profile-1700000011234.webp'', afterKeylessSave)"
    unfolding processAndSave_eq [OF s]
    by (simp add: f ex_env_fields ex_keys saveFile_def emit_def Let_def afterKeylessSave_def
        getLocalPath_def getPublicUrl_def storageUrlBase_def normalizePath_def startsWith_def
        dirname_def)
  show ?thesis
    by (simp only: uploadWithFallback_def r l prod.case sum.case) simp
qed

theorem upload_fallback_order_witness:
  "(runSharp downEnv stagedWorld ''/missing.png'' False profileOptions = None
     \<and> uploadWithFallback downEnv stagedWorld ''http://localhost:3000'' ''/missing.png'' ''42'' False
           profileOptions
         = (Inl (ProcessAndUploadError SharpFailed, ProcessAndSaveError SharpFailed), stagedWorld))
   \<and> (runSharp profileOnlyEnv stagedWorld ''/app/uploads/temp/1-a.png'' False profileOptions = Some [1]
     \<and> storageAccessKey (cfg profileOnlyEnv) \<noteq> None
     \<and> axiosPut profileOnlyEnv
           (getStorageUrl (cfg profileOnlyEnv) ''characters/42/profile-1700000001234.webp'') [1]
     \<and> uploadWithFallback profileOnlyEnv stagedWorld ''http://localhost:3000''
           ''/app/uploads/temp/1-a.png'' ''42'' False profileOptions
         = (Inr ''https://leome.b-cdn.net/characters/42/profile-1700000001234.webp'',
            stagedWorld\<lparr>clock := 1, trace :=
              [HttpPut ''https://storage.bunnycdn.com/leome/characters/42/profile-1700000001234.webp''
                 [1] ''image/webp'']\<rparr>))
   \<and> (runSharp localEnv stagedWorld ''/app/uploads/temp/1-a.png'' False profileOptions = Some [1]
     \<and> \<not> axiosPut localEnv
           (getStorageUrl (cfg localEnv) ''characters/42/profile-1700000001234.webp'') [1]
     \<and> \<not> isl (fst (saveFile localEnv
           (stagedWorld\<lparr>clock := 2, trace :=
              [HttpPut ''https://storage.bunnycdn.com/leome/characters/42/profile-1700000001234.webp''
                 [1] ''image/webp'']\<rparr>)
           [1] ''characters/42/profile-1700000011234.webp''))
     \<and> fst (uploadWithFallback localEnv stagedWorld ''http://localhost:3000''
           ''/app/uploads/temp/1-a.png'' ''42'' False profileOptions)
         = Inr ''http://localhost:3000/images/characters/42/profile-1700000011234.webp''
     \<and> files (snd (uploadWithFallback localEnv stagedWorld ''http://localhost:3000''
           ''/app/uploads/temp/1-a.png'' ''42'' False profileOptions))
           ''/app/public/images/characters/42/profile-1700000011234.webp'' = Some [1]
     \<and> last (trace (snd (uploadWithFallback localEnv stagedWorld ''http://localhost:3000''
           ''/app/uploads/temp/1-a.png'' ''42'' False profileOptions)))
         = WriteFile ''/app/public/images/characters/42/profile-1700000011234.webp'' [1])
   \<and> (runSharp keylessEnv stagedWorld ''/app/uploads/temp/1-a.png'' False profileOptions = Some [1]
     \<and> storageAccessKey (cfg keylessEnv) = None
     \<and> \<not> isl (fst (saveFile keylessEnv (stagedWorld\<lparr>clock := 2\<rparr>)
           [1] ''characters/42/profile-1700000011234.webp''))
     \<and> fst (uploadWithFallback keylessEnv stagedWorld ''http://localhost:3000''
           ''/app/uploads/temp/1-a.png'' ''42'' False profileOptions)
         = Inr ''http://localhost:3000/images/characters/42/profile-1700000011234.webp''
     \<and> files (snd (uploadWithFallback keylessEnv stagedWorld ''http://localhost:3000''
           ''/app/uploads/temp/1-a.png'' ''42'' False profileOptions))
           ''/app/public/images/characters/42/profile-1700000011234.webp'' = Some [1]
     \<and> trace (snd (uploadWithFallback keylessEnv stagedWorld ''http://localhost:3000''
           ''/app/uploads/temp/1-a.png'' ''42'' False profileOptions))
         = [MkDir ''/app/public/images/characters/42'',
            WriteFile ''/app/public/images/characters/42/profile-1700000011234.webp'' [1]])"
proof -
  note paths = getStorageUrl_def getCdnUrl_def getLocalPath_def normalizePath_def startsWith_def
    bunnyConfig_def
  have kl: "storageAccessKey (cfg keylessEnv) = None" "dateNow keylessEnv = dateNow downEnv"
    "writeOk keylessEnv p" "mkdirOk keylessEnv p"
    "storageDir (cfg keylessEnv) = ''/app/public/images''" for p
    by (simp_all add: keylessEnv_def localEnv_def downEnv_def bunnyConfig_def)
  have sk: "runSharp keylessEnv stagedWorld ''/app/uploads/temp/1-a.png'' False profileOptions = Some [1]"
    by (simp add: runSharp_def keylessEnv_def localEnv_def downEnv_def stagedWorld_def resizeFor_def)
  have h1: "runSharp downEnv stagedWorld ''/missing.png'' False profileOptions = None"
    by (rule ex_runSharp_staged(1))
  have c1: "uploadWithFallback downEnv stagedWorld ''http://localhost:3000'' ''/missing.png'' ''42'' False
           profileOptions
         = (Inl (ProcessAndUploadError SharpFailed, ProcessAndSaveError SharpFailed), stagedWorld)"
    using upload_fallback_order [where env = downEnv and w = stagedWorld and img = "''/missing.png''"
        and b = False and opts = profileOptions and base = "''http://localhost:3000''"
        and cid = "''42''" and buf = "[1]", OF refl refl refl refl refl] h1
    by blast
  have h2: "runSharp profileOnlyEnv stagedWorld ''/app/uploads/temp/1-a.png'' False profileOptions = Some [1]
     \<and> storageAccessKey (cfg profileOnlyEnv) \<noteq> None
     \<and> axiosPut profileOnlyEnv
           (getStorageUrl (cfg profileOnlyEnv) ''characters/42/profile-1700000001234.webp'') [1]"
    by (simp add: ex_runSharp_staged(2) ex_env_fields bunnyConfig_def)
  have c2: "uploadWithFallback profileOnlyEnv stagedWorld ''http://localhost:3000''
           ''/app/uploads/temp/1-a.png'' ''42'' False profileOptions
         = (Inr ''https://leome.b-cdn.net/characters/42/profile-1700000001234.webp'',
            stagedWorld\<lparr>clock := 1, trace :=
              [HttpPut ''https://storage.bunnycdn.com/leome/characters/42/profile-1700000001234.webp''
                 [1] ''image/webp'']\<rparr>)"
    using upload_fallback_order [where env = profileOnlyEnv and w = stagedWorld
        and img = "''/app/uploads/temp/1-a.png''"
        and b = False and opts = profileOptions and base = "''http://localhost:3000''"
        and cid = "''42''" and buf = "[1]", OF refl refl refl refl refl]
      h2
    by (simp add: ex_env_fields ex_keys paths)
  have h3: "runSharp localEnv stagedWorld ''/app/uploads/temp/1-a.png'' False profileOptions = Some [1]
     \<and> \<not> axiosPut localEnv
           (getStorageUrl (cfg localEnv) ''characters/42/profile-1700000001234.webp'') [1]
     \<and> \<not> isl (fst (saveFile localEnv
           (stagedWorld\<lparr>clock := 2, trace :=
              [HttpPut ''https://storage.bunnycdn.com/leome/characters/42/profile-1700000001234.webp''
                 [1] ''image/webp'']\<rparr>)
           [1] ''characters/42/profile-1700000011234.webp''))"
    by (simp add: ex_runSharp_staged(3) ex_env_fields saveFile_def Let_def)
  have c3: "fst (uploadWithFallback localEnv stagedWorld ''http://localhost:3000''
           ''/app/uploads/temp/1-a.png'' ''42'' False profileOptions)
         = Inr ''http://localhost:3000/images/characters/42/profile-1700000011234.webp''
     \<and> files (snd (uploadWithFallback localEnv stagedWorld ''http://localhost:3000''
           ''/app/uploads/temp/1-a.png'' ''42'' False profileOptions))
           ''/app/public/images/characters/42/profile-1700000011234.webp'' = Some [1]
     \<and> last (trace (snd (uploadWithFallback localEnv stagedWorld ''http://localhost:3000''
           ''/app/uploads/temp/1-a.png'' ''42'' False profileOptions)))
         = WriteFile ''/app/public/images/characters/42/profile-1700000011234.webp'' [1]"
  proof -
    note t = upload_fallback_order [where env = localEnv and w = stagedWorld
        and img = "''/app/uploads/temp/1-a.png''"
        and b = False and opts = profileOptions and base = "''http://localhost:3000''"
        and cid = "''42''" and buf = "[1]", OF refl refl refl refl refl,
        THEN conjunct2, THEN conjunct2, THEN conjunct2, THEN mp]
    have raw: "fst (uploadWithFallback localEnv stagedWorld ''http://localhost:3000''
           ''/app/uploads/temp/1-a.png'' ''42'' False profileOptions)
         = Inr (''http://localhost:3000'' @ ''/images/'' @
                characterImagePath ''42'' False (dateNow localEnv (Suc (clock stagedWorld))))
     \<and> files (snd (uploadWithFallback localEnv stagedWorld ''http://localhost:3000''
           ''/app/uploads/temp/1-a.png'' ''42'' False profileOptions))
           (getLocalPath (cfg localEnv)
              (characterImagePath ''42'' False (dateNow localEnv (Suc (clock stagedWorld))))) = Some [1]
     \<and> last (trace (snd (uploadWithFallback localEnv stagedWorld ''http://localhost:3000''
           ''/app/uploads/temp/1-a.png'' ''42'' False profileOptions)))
         = WriteFile (getLocalPath (cfg localEnv)
              (characterImagePath ''42'' False (dateNow localEnv (Suc (clock stagedWorld))))) [1]"
      by (rule t)
         (simp add: ex_runSharp_staged(3) ex_env_fields bunnyConfig_def saveFile_def Let_def)
    then show ?thesis
      by (simp add: ex_env_fields ex_keys paths)
  qed
  have h4: "runSharp keylessEnv stagedWorld ''/app/uploads/temp/1-a.png'' False profileOptions = Some [1]
     \<and> storageAccessKey (cfg keylessEnv) = None
     \<and> \<not> isl (fst (saveFile keylessEnv (stagedWorld\<lparr>clock := 2\<rparr>)
           [1] ''characters/42/profile-1700000011234.webp''))"
    by (simp add: sk kl saveFile_def Let_def)
  have c4: "fst (uploadWithFallback keylessEnv stagedWorld ''http://localhost:3000''
           ''/app/uploads/temp/1-a.png'' ''42'' False profileOptions)
         = Inr ''http://localhost:3000/images/characters/42/profile-1700000011234.webp''
     \<and> files (snd (uploadWithFallback keylessEnv stagedWorld ''http://localhost:3000''
           ''/app/uploads/temp/1-a.png'' ''42'' False profileOptions))
           ''/app/public/images/characters/42/profile-1700000011234.webp'' = Some [1]"
  proof -
    note t = upload_fallback_order [where env = keylessEnv and w = stagedWorld
        and img = "''/app/uploads/temp/1-a.png''"
        and b = False and opts = profileOptions and base = "''http://localhost:3000''"
        and cid = "''42''" and buf = "[1]", OF refl refl refl refl refl,
        THEN conjunct2, THEN conjunct2, THEN conjunct2, THEN mp]
    have raw: "fst (uploadWithFallback keylessEnv stagedWorld ''http://localhost:3000''
           ''/app/uploads/temp/1-a.png'' ''42'' False profileOptions)
         = Inr (''http://localhost:3000'' @ ''/images/'' @
                characterImagePath ''42'' False (dateNow keylessEnv (Suc (clock stagedWorld))))
     \<and> files (snd (uploadWithFallback keylessEnv stagedWorld ''http://localhost:3000''
           ''/app/uploads/temp/1-a.png'' ''42'' False profileOptions))
           (getLocalPath (cfg keylessEnv)
              (characterImagePath ''42'' False (dateNow keylessEnv (Suc (clock stagedWorld))))) = Some [1]
     \<and> last (trace (snd (uploadWithFallback keylessEnv stagedWorld ''http://localhost:3000''
           ''/app/uploads/temp/1-a.png'' ''42'' False profileOptions)))
         = WriteFile (getLocalPath (cfg keylessEnv)
              (characterImagePath ''42'' False (dateNow keylessEnv (Suc (clock stagedWorld))))) [1]"
      by (rule t) (simp add: sk kl saveFile_def Let_def)
    then show ?thesis
      by (simp add: kl ex_env_fields ex_keys getLocalPath_def normalizePath_def startsWith_def)
  qed
  have c5: "trace (snd (uploadWithFallback keylessEnv stagedWorld ''http://localhost:3000''
           ''/app/uploads/temp/1-a.png'' ''42'' False profileOptions))
         = [MkDir ''/app/public/images/characters/42'',
            WriteFile ''/app/public/images/characters/42/profile-1700000011234.webp'' [1]]"
    by (simp add: ex_keyless_fallback) (simp add: afterKeylessSave_def)
  from h1 c1 h2 c2 h3 c3 h4 c4 c5 show ?thesis by blast
qed

lemma truthy_value: "truthy v \<Longrightarrow> \<exists>s. s \<noteq> [] \<and> v = Some s \<and> orElse v [] = s"
  by (cases v) (simp_all add: truthy_def orElse_def)

text \<open>An assignment of \<open>updateTextFields\<close> stores a non-empty string from the body.\<close>

lemma updateTextFields_choice:
  "name (updateTextFields req tv iv c) = name c \<or>
     (\<exists>s. s \<noteq> [] \<and> body_name req = Some s \<and> name (updateTextFields req tv iv c) = s)"
  "description (updateTextFields req tv iv c) = description c \<or>
     (\<exists>s. s \<noteq> [] \<and> body_description req = Some s \<and> description (updateTextFields req tv iv c) = s)"
  "personality (updateTextFields req tv iv c) = personality c \<or>
     (\<exists>s. s \<noteq> [] \<and> body_personality req = Some s \<and> personality (updateTextFields req tv iv c) = s)"
  "accentColor (updateTextFields req tv iv c) = accentColor c \<or>
     (\<exists>s. s \<noteq> [] \<and> body_accentColor req = Some s \<and> accentColor (updateTextFields req tv iv c) = s)"
  "textColor (updateTextFields req tv iv c) = textColor c \<or>
     (\<exists>s. s \<noteq> [] \<and> body_textColor req = Some s \<and> textColor (updateTextFields req tv iv c) = s)"
  "age (updateTextFields req tv iv c) = age c \<or>
     (\<exists>s. s \<noteq> [] \<and> body_age req = Some s \<and> age (updateTextFields req tv iv c) = Some s)"
  "location (updateTextFields req tv iv c) = location c \<or>
     (\<exists>s. s \<noteq> [] \<and> body_location req = Some s \<and> location (updateTextFields req tv iv c) = Some s)"
  "responseTime (updateTextFields req tv iv c) = responseTime c \<or>
     (\<exists>s. s \<noteq> [] \<and> body_responseTime req = Some s \<and> responseTime (updateTextFields req tv iv c) = s)"
proof -
  show "name (updateTextFields req tv iv c) = name c \<or>
     (\<exists>s. s \<noteq> [] \<and> body_name req = Some s \<and> name (updateTextFields req tv iv c) = s)"
    using truthy_value [of "body_name req"]
    by (cases "truthy (body_name req)")
       (simp_all add: updateTextFields_def Let_def split: option.splits)
  show "description (updateTextFields req tv iv c) = description c \<or>
     (\<exists>s. s \<noteq> [] \<and> body_description req = Some s \<and> description (updateTextFields req tv iv c) = s)"
    using truthy_value [of "body_description req"]
    by (cases "truthy (body_description req)")
       (simp_all add: updateTextFields_def Let_def split: option.splits)
  show "personality (updateTextFields req tv iv c) = personality c \<or>
     (\<exists>s. s \<noteq> [] \<and> body_personality req = Some s \<and> personality (updateTextFields req tv iv c) = s)"
    using truthy_value [of "body_personality req"]
    by (cases "truthy (body_personality req)")
       (simp_all add: updateTextFields_def Let_def split: option.splits)
  show "accentColor (updateTextFields req tv iv c) = accentColor c \<or>
     (\<exists>s. s \<noteq> [] \<and> body_accentColor req = Some s \<and> accentColor (updateTextFields req tv iv c) = s)"
    using truthy_value [of "body_accentColor req"]
    by (cases "truthy (body_accentColor req)")
       (simp_all add: updateTextFields_def Let_def split: option.splits)
  show "textColor (updateTextFields req tv iv c) = textColor c \<or>
     (\<exists>s. s \<noteq> [] \<and> body_textColor req = Some s \<and> textColor (updateTextFields req tv iv c) = s)"
    using truthy_value [of "body_textColor req"]
    by (cases "truthy (body_textColor req)")
       (simp_all add: updateTextFields_def Let_def split: option.splits)
  show "age (updateTextFields req tv iv c) = age c \<or>
     (\<exists>s. s \<noteq> [] \<and> body_age req = Some s \<and> age (updateTextFields req tv iv c) = Some s)"
    using truthy_value [of "body_age req"]
    by (cases "truthy (body_age req)")
       (auto simp: updateTextFields_def Let_def split: option.splits)
  show "location (updateTextFields req tv iv c) = location c \<or>
     (\<exists>s. s \<noteq> [] \<and> body_location req = Some s \<and> location (updateTextFields req tv iv c) = Some s)"
    using truthy_value [of "body_location req"]
    by (cases "truthy (body_location req)")
       (auto simp: updateTextFields_def Let_def split: option.splits)
  show "responseTime (updateTextFields req tv iv c) = responseTime c \<or>
     (\<exists>s. s \<noteq> [] \<and> body_responseTime req = Some s \<and> responseTime (updateTextFields req tv iv c) = s)"
    using truthy_value [of "body_responseTime req"]
    by (cases "truthy (body_responseTime req)")
       (simp_all add: updateTextFields_def Let_def split: option.splits)
qed

text \<open>
  A field of a stored document after an update: what it was, or a value for which the
  request gives a reason.
\<close>

lemma stored_field_choice:
  assumes db': "db' = db0 \<or> (\<exists>c0 c. db0 k = Some c0 \<and> db' = db0(k \<mapsto> c) \<and> f c = f (t c0))"
    and ch: "\<And>c0. f (t c0) = f c0 \<or> P (f (t c0))"
  shows "map_option f (db' i) = map_option f (db0 i) \<or> (\<exists>v. P v \<and> map_option f (db' i) = Some v)"
  using db'
proof (elim disjE exE conjE)
  assume "db' = db0"
  then show ?thesis by simp
next
  fix c0 c
  assume a: "db0 k = Some c0" "db' = db0(k \<mapsto> c)" "f c = f (t c0)"
  show ?thesis
  proof (cases "i = k")
    case False
    with a show ?thesis by simp
  next
    case True
    from ch [of c0] show ?thesis
    proof
      assume "f (t c0) = f c0"
      with a True show ?thesis by simp
    next
      assume "P (f (t c0))"
      with a True have "P (f c) \<and> map_option f (db' i) = Some (f c)" by simp
      then have "\<exists>v. P v \<and> map_option f (db' i) = Some v" by (rule exI)
      then show ?thesis by (rule disjI2)
    qed
  qed
qed


lemma updateCharacter_db_field:
  assumes "\<And>a b. sameTextFields a b \<Longrightarrow> f a = f b"
  shows "db (snd (updateCharacter env w req)) = db w \<or>
     (\<exists>c0 c. db w (params_id req) = Some c0 \<and>
        db (snd (updateCharacter env w req)) = (db w)(params_id req \<mapsto> c) \<and>
        f c = f (updateTextFields req (parseListField env (body_traits req))
                  (parseListField env (body_interests req)) c0))"
  using updateCharacter_db [of env w req]
proof (elim disjE exE conjE)
  assume "db (snd (updateCharacter env w req)) = db w"
  then show ?thesis by (rule disjI1)
next
  fix c0 c
  assume a: "db w (params_id req) = Some c0"
    "db (snd (updateCharacter env w req)) = (db w)(params_id req \<mapsto> c)"
    "sameTextFields c (updateTextFields req (parseListField env (body_traits req))
                  (parseListField env (body_interests req)) c0)"
  from a(1,2) assms [OF a(3)]
  have "db w (params_id req) = Some c0 \<and>
        db (snd (updateCharacter env w req)) = (db w)(params_id req \<mapsto> c) \<and>
        f c = f (updateTextFields req (parseListField env (body_traits req))
                  (parseListField env (body_interests req)) c0)"
    by simp
  then have "\<exists>c. db w (params_id req) = Some c0 \<and>
        db (snd (updateCharacter env w req)) = (db w)(params_id req \<mapsto> c) \<and>
        f c = f (updateTextFields req (parseListField env (body_traits req))
                  (parseListField env (body_interests req)) c0)"
    by (rule exI)
  then have "\<exists>c0 c. db w (params_id req) = Some c0 \<and>
        db (snd (updateCharacter env w req)) = (db w)(params_id req \<mapsto> c) \<and>
        f c = f (updateTextFields req (parseListField env (body_traits req))
                  (parseListField env (body_interests req)) c0)"
    by (rule exI)
  then show ?thesis by (rule disjI2)
qed

lemma updateCharacter_sets_nonempty:
  "(map_option name (db (snd (updateCharacter env w req)) i) = map_option name (db w i) \<or>
      (\<exists>v. (v \<noteq> [] \<and> body_name req = Some v) \<and>
           map_option name (db (snd (updateCharacter env w req)) i) = Some v))
   \<and> (map_option description (db (snd (updateCharacter env w req)) i) = map_option description (db w i) \<or>
      (\<exists>v. (v \<noteq> [] \<and> body_description req = Some v) \<and>
           map_option description (db (snd (updateCharacter env w req)) i) = Some v))
   \<and> (map_option personality (db (snd (updateCharacter env w req)) i) = map_option personality (db w i) \<or>
      (\<exists>v. (v \<noteq> [] \<and> body_personality req = Some v) \<and>
           map_option personality (db (snd (updateCharacter env w req)) i) = Some v))
   \<and> (map_option accentColor (db (snd (updateCharacter env w req)) i) = map_option accentColor (db w i) \<or>
      (\<exists>v. (v \<noteq> [] \<and> body_accentColor req = Some v) \<and>
           map_option accentColor (db (snd (updateCharacter env w req)) i) = Some v))
   \<and> (map_option textColor (db (snd (updateCharacter env w req)) i) = map_option textColor (db w i) \<or>
      (\<exists>v. (v \<noteq> [] \<and> body_textColor req = Some v) \<and>
           map_option textColor (db (snd (updateCharacter env w req)) i) = Some v))
   \<and> (map_option age (db (snd (updateCharacter env w req)) i) = map_option age (db w i) \<or>
      (\<exists>v. (\<exists>s. s \<noteq> [] \<and> body_age req = Some s \<and> v = Some s) \<and>
           map_option age (db (snd (updateCharacter env w req)) i) = Some v))
   \<and> (map_option location (db (snd (updateCharacter env w req)) i) = map_option location (db w i) \<or>
      (\<exists>v. (\<exists>s. s \<noteq> [] \<and> body_location req = Some s \<and> v = Some s) \<and>
           map_option location (db (snd (updateCharacter env w req)) i) = Some v))
   \<and> (map_option responseTime (db (snd (updateCharacter env w req)) i) = map_option responseTime (db w i) \<or>
      (\<exists>v. (v \<noteq> [] \<and> body_responseTime req = Some v) \<and>
           map_option responseTime (db (snd (updateCharacter env w req)) i) = Some v))"
proof -
  have n_name: "(map_option name (db (snd (updateCharacter env w req)) i) = map_option name (db w i) \<or>
         (\<exists>v. (v \<noteq> [] \<and> body_name req = Some v) \<and>
              map_option name (db (snd (updateCharacter env w req)) i) = Some v))"
    by (rule stored_field_choice [OF updateCharacter_db_field])
       (use updateTextFields_choice(1) in \<open>auto simp: sameTextFields_def\<close>)
  have n_description: "(map_option description (db (snd (updateCharacter env w req)) i) = map_option description (db w i) \<or>
         (\<exists>v. (v \<noteq> [] \<and> body_description req = Some v) \<and>
              map_option description (db (snd (updateCharacter env w req)) i) = Some v))"
    by (rule stored_field_choice [OF updateCharacter_db_field])
       (use updateTextFields_choice(2) in \<open>auto simp: sameTextFields_def\<close>)
  have n_personality: "(map_option personality (db (snd (updateCharacter env w req)) i) = map_option personality (db w i) \<or>
         (\<exists>v. (v \<noteq> [] \<and> body_personality req = Some v) \<and>
              map_option personality (db (snd (updateCharacter env w req)) i) = Some v))"
    by (rule stored_field_choice [OF updateCharacter_db_field])
       (use updateTextFields_choice(3) in \<open>auto simp: sameTextFields_def\<close>)
  have n_accentColor: "(map_option accentColor (db (snd (updateCharacter env w req)) i) = map_option accentColor (db w i) \<or>
         (\<exists>v. (v \<noteq> [] \<and> body_accentColor req = Some v) \<and>
              map_option accentColor (db (snd (updateCharacter env w req)) i) = Some v))"
    by (rule stored_field_choice [OF updateCharacter_db_field])
       (use updateTextFields_choice(4) in \<open>auto simp: sameTextFields_def\<close>)
  have n_textColor: "(map_option textColor (db (snd (updateCharacter env w req)) i) = map_option textColor (db w i) \<or>
         (\<exists>v. (v \<noteq> [] \<and> body_textColor req = Some v) \<and>
              map_option textColor (db (snd (updateCharacter env w req)) i) = Some v))"
    by (rule stored_field_choice [OF updateCharacter_db_field])
       (use updateTextFields_choice(5) in \<open>auto simp: sameTextFields_def\<close>)
  have n_age: "(map_option age (db (snd (updateCharacter env w req)) i) = map_option age (db w i) \<or>
         (\<exists>v. (\<exists>s. s \<noteq> [] \<and> body_age req = Some s \<and> v = Some s) \<and>
              map_option age (db (snd (updateCharacter env w req)) i) = Some v))"
    by (rule stored_field_choice [OF updateCharacter_db_field])
       (use updateTextFields_choice(6) in \<open>auto simp: sameTextFields_def\<close>)
  have n_location: "(map_option location (db (snd (updateCharacter env w req)) i) = map_option location (db w i) \<or>
         (\<exists>v. (\<exists>s. s \<noteq> [] \<and> body_location req = Some s \<and> v = Some s) \<and>
              map_option location (db (snd (updateCharacter env w req)) i) = Some v))"
    by (rule stored_field_choice [OF updateCharacter_db_field])
       (use updateTextFields_choice(7) in \<open>auto simp: sameTextFields_def\<close>)
  have n_responseTime: "(map_option responseTime (db (snd (updateCharacter env w req)) i) = map_option responseTime (db w i) \<or>
         (\<exists>v. (v \<noteq> [] \<and> body_responseTime req = Some v) \<and>
              map_option responseTime (db (snd (updateCharacter env w req)) i) = Some v))"
    by (rule stored_field_choice [OF updateCharacter_db_field])
       (use updateTextFields_choice(8) in \<open>auto simp: sameTextFields_def\<close>)
  from n_name n_description n_personality n_accentColor n_textColor n_age n_location n_responseTime
  show ?thesis by blast
qed

text \<open>
  Claim C10, as the code has it. After an update request, for every id: when the request
  carried no image files, the stored \<open>imageUrl\<close> and \<open>backgroundImageUrl\<close> are what
  they were; each of \<open>name\<close>, \<open>description\<close>, \<open>personality\<close>, \<open>accentColor\<close>,
  \<open>textColor\<close>, \<open>age\<close>, \<open>location\<close>, \<open>responseTime\<close>, \<open>traits\<close> and
  \<open>interests\<close> whose body field is absent or empty is stored as it was; and each of the
  eight string fields is afterwards either what it was or the non-empty string of the
  body, so that an update sets none of them to the empty string.
\<close>

theorem update_keeps_absent_fields:
  "(files_image req = None \<and> files_backgroundImage req = None \<longrightarrow>
      map_option imageUrl (db (snd (updateCharacter env w req)) i) = map_option imageUrl (db w i) \<and>
      map_option backgroundImageUrl (db (snd (updateCharacter env w req)) i)
        = map_option backgroundImageUrl (db w i))
   \<and> (\<not> truthy (body_name req) \<longrightarrow>
        map_option name (db (snd (updateCharacter env w req)) i) = map_option name (db w i))
   \<and> (\<not> truthy (body_description req) \<longrightarrow>
        map_option description (db (snd (updateCharacter env w req)) i) = map_option description (db w i))
   \<and> (\<not> truthy (body_personality req) \<longrightarrow>
        map_option personality (db (snd (updateCharacter env w req)) i) = map_option personality (db w i))
   \<and> (\<not> truthy (body_accentColor req) \<longrightarrow>
        map_option accentColor (db (snd (updateCharacter env w req)) i) = map_option accentColor (db w i))
   \<and> (\<not> truthy (body_textColor req) \<longrightarrow>
        map_option textColor (db (snd (updateCharacter env w req)) i) = map_option textColor (db w i))
   \<and> (\<not> truthy (body_age req) \<longrightarrow>
        map_option age (db (snd (updateCharacter env w req)) i) = map_option age (db w i))
   \<and> (\<not> truthy (body_location req) \<longrightarrow>
        map_option location (db (snd (updateCharacter env w req)) i) = map_option location (db w i))
   \<and> (\<not> truthy (body_responseTime req) \<longrightarrow>
        map_option responseTime (db (snd (updateCharacter env w req)) i) = map_option responseTime (db w i))
   \<and> (\<not> truthy (body_traits req) \<longrightarrow>
        map_option traits (db (snd (updateCharacter env w req)) i) = map_option traits (db w i))
   \<and> (\<not> truthy (body_interests req) \<longrightarrow>
        map_option interests (db (snd (updateCharacter env w req)) i) = map_option interests (db w i))
   \<and> (map_option name (db (snd (updateCharacter env w req)) i) = map_option name (db w i) \<or>
      (\<exists>v. (v \<noteq> [] \<and> body_name req = Some v) \<and>
           map_option name (db (snd (updateCharacter env w req)) i) = Some v))
   \<and> (map_option description (db (snd (updateCharacter env w req)) i) = map_option description (db w i) \<or>
      (\<exists>v. (v \<noteq> [] \<and> body_description req = Some v) \<and>
           map_option description (db (snd (updateCharacter env w req)) i) = Some v))
   \<and> (map_option personality (db (snd (updateCharacter env w req)) i) = map_option personality (db w i) \<or>
      (\<exists>v. (v \<noteq> [] \<and> body_personality req = Some v) \<and>
           map_option personality (db (snd (updateCharacter env w req)) i) = Some v))
   \<and> (map_option accentColor (db (snd (updateCharacter env w req)) i) = map_option accentColor (db w i) \<or>
      (\<exists>v. (v \<noteq> [] \<and> body_accentColor req = Some v) \<and>
           map_option accentColor (db (snd (updateCharacter env w req)) i) = Some v))
   \<and> (map_option textColor (db (snd (updateCharacter env w req)) i) = map_option textColor (db w i) \<or>
      (\<exists>v. (v \<noteq> [] \<and> body_textColor req = Some v) \<and>
           map_option textColor (db (snd (updateCharacter env w req)) i) = Some v))
   \<and> (map_option age (db (snd (updateCharacter env w req)) i) = map_option age (db w i) \<or>
      (\<exists>v. (\<exists>s. s \<noteq> [] \<and> body_age req = Some s \<and> v = Some s) \<and>
           map_option age (db (snd (updateCharacter env w req)) i) = Some v))
   \<and> (map_option location (db (snd (updateCharacter env w req)) i) = map_option location (db w i) \<or>
      (\<exists>v. (\<exists>s. s \<noteq> [] \<and> body_location req = Some s \<and> v = Some s) \<and>
           map_option location (db (snd (updateCharacter env w req)) i) = Some v))
   \<and> (map_option responseTime (db (snd (updateCharacter env w req)) i) = map_option responseTime (db w i) \<or>
      (\<exists>v. (v \<noteq> [] \<and> body_responseTime req = Some v) \<and>
           map_option responseTime (db (snd (updateCharacter env w req)) i) = Some v))"
  using updateCharacter_keeps [of req env w i] updateCharacter_sets_nonempty [of env w req i]
  by - (elim conjE, intro conjI; assumption)

theorem update_keeps_absent_fields_witness:
  "(files_image emptyUpdate = None \<and> files_backgroundImage emptyUpdate = None)
   \<and> \<not> truthy (body_name emptyUpdate) \<and> \<not> truthy (body_description emptyUpdate)
   \<and> \<not> truthy (body_personality emptyUpdate) \<and> \<not> truthy (body_accentColor emptyUpdate)
   \<and> \<not> truthy (body_textColor emptyUpdate) \<and> \<not> truthy (body_age emptyUpdate)
   \<and> \<not> truthy (body_location emptyUpdate) \<and> \<not> truthy (body_responseTime emptyUpdate)
   \<and> \<not> truthy (body_traits emptyUpdate) \<and> \<not> truthy (body_interests emptyUpdate)
   \<and> map_option imageUrl (db (snd (updateCharacter downEnv storedWorld emptyUpdate)) ''1234567890'')
       = Some ''https://leome.b-cdn.net/characters/1234567890/profile-5.webp''
   \<and> map_option backgroundImageUrl (db (snd (updateCharacter downEnv storedWorld emptyUpdate)) ''1234567890'')
       = Some None
   \<and> map_option name (db (snd (updateCharacter downEnv storedWorld emptyUpdate)) ''1234567890'')
       = Some ''Sophia''
   \<and> map_option description (db (snd (updateCharacter downEnv storedWorld emptyUpdate)) ''1234567890'')
       = Some ''Life coach''
   \<and> map_option traits (db (snd (updateCharacter downEnv storedWorld emptyUpdate)) ''1234567890'')
       = Some [''Patient'']"
  using update_keeps_absent_fields [of emptyUpdate downEnv storedWorld "''1234567890''"]
  by (simp add: emptyUpdate_def truthy_def storedWorld_def storedCharacter_def stagedWorld_def)

text \<open>
  The list fields can be cleared: the body field \<open>traits = '[]'\<close> is a truthy string,
  parses to the empty array, which is truthy too, and is stored.
\<close>

theorem update_clears_traits_counterexample:
  "fst (fst (updateCharacter jsonEnv storedWorld clearTraitsUpdate)) = 200
   \<and> map_option traits (db storedWorld ''1234567890'') = Some [''Patient'']
   \<and> map_option traits (db (snd (updateCharacter jsonEnv storedWorld clearTraitsUpdate)) ''1234567890'')
       = Some []"
proof -
  have f: "findOne jsonEnv storedWorld ''1234567890'' = Found storedCharacter"
    by (simp add: findOne_def jsonEnv_def downEnv_def storedWorld_def)
  have s: "dbSaveOk jsonEnv c" for c
    by (simp add: jsonEnv_def downEnv_def)
  have p: "params_id clearTraitsUpdate = ''1234567890''" "files_image clearTraitsUpdate = None"
    "files_backgroundImage clearTraitsUpdate = None"
    by (simp_all add: clearTraitsUpdate_def emptyUpdate_def)
  have t: "parseListField jsonEnv (body_traits clearTraitsUpdate) = Some []"
    "parseListField jsonEnv (body_interests clearTraitsUpdate) = None"
    by (simp_all add: parseListField_def clearTraitsUpdate_def emptyUpdate_def jsonEnv_def)
  have u: "updateTextFields clearTraitsUpdate (Some []) None storedCharacter
      = storedCharacter\<lparr>traits := []\<rparr>"
    by (simp add: updateTextFields_def Let_def truthy_def clearTraitsUpdate_def emptyUpdate_def)
  have r: "updateCharacter jsonEnv storedWorld clearTraitsUpdate =
      ((200, CharacterJson (storedCharacter\<lparr>traits := [], updatedAt := dateNow jsonEnv (clock storedWorld)\<rparr>)),
       storedWorld\<lparr>clock := Suc (clock storedWorld),
         db := (db storedWorld)(''1234567890'' \<mapsto>
            storedCharacter\<lparr>traits := [], updatedAt := dateNow jsonEnv (clock storedWorld)\<rparr>)\<rparr>)"
    by (simp add: updateCharacter_def p f t u s updateImage_def updateBackgroundImage_def
        touchAndSave_def saveFound_def Date_now_def Let_def)
  show ?thesis
    by (simp add: r) (simp add: storedWorld_def storedCharacter_def)
qed

section \<open>Properties of the transform\<close>

lemma orDefault_pos: "0 < d \<Longrightarrow> 0 < orDefault v d"
  by (simp add: orDefault_def split: option.splits)

lemma orDefault_given: "0 < n \<Longrightarrow> orDefault (Some n) d = n"
  by (simp add: orDefault_def)

lemma inside_scale:
  fixes W H sw sh :: real
  assumes "0 < W" "0 < H" "0 < sw" "0 < sh"
  defines "s \<equiv> min 1 (min (W / sw) (H / sh))"
  shows "0 < s" "s \<le> 1" "s * sw \<le> W" "s * sh \<le> H"
proof -
  show "0 < s" using assms by (simp add: s_def)
  show "s \<le> 1" by (simp add: s_def)
  have "s \<le> W / sw" by (simp add: s_def)
  then show "s * sw \<le> W" using assms(3) by (simp add: pos_le_divide_eq)
  have "s \<le> H / sh" by (simp add: s_def)
  then show "s * sh \<le> H" using assms(4) by (simp add: pos_le_divide_eq)
qed

text \<open>
  Claim C6. For an image of positive width and height, the profile transform yields
  exactly the requested width by height, 400 by 400 when none is requested; the background
  transform yields an image that exceeds the requested box (1200 by 800 when none is
  requested) on neither axis, has the aspect ratio of the source and is no larger than the
  source on either axis.
\<close>

theorem transform_geometry:
  assumes "0 < sw" and "0 < sh"
  shows "transformSize False opts (sw, sh)
           = (real (orDefault (opt_width opts) 400), real (orDefault (opt_height opts) 400))
       \<and> (0 < rw \<and> 0 < rh \<longrightarrow>
            transformSize False \<lparr> opt_width = Some rw, opt_height = Some rh, opt_quality = q \<rparr> (sw, sh)
              = (real rw, real rh))
       \<and> transformSize False \<lparr> opt_width = None, opt_height = None, opt_quality = q \<rparr> (sw, sh)
              = (400, 400)
       \<and> fst (transformSize True opts (sw, sh)) \<le> real (orDefault (opt_width opts) 1200)
       \<and> snd (transformSize True opts (sw, sh)) \<le> real (orDefault (opt_height opts) 800)
       \<and> fst (transformSize True opts (sw, sh)) * sh = snd (transformSize True opts (sw, sh)) * sw
       \<and> fst (transformSize True opts (sw, sh)) \<le> sw
       \<and> snd (transformSize True opts (sw, sh)) \<le> sh
       \<and> 0 < fst (transformSize True opts (sw, sh))
       \<and> 0 < snd (transformSize True opts (sw, sh))"
proof -
  let ?W = "real (orDefault (opt_width opts) 1200)"
  let ?H = "real (orDefault (opt_height opts) 800)"
  let ?s = "min 1 (min (?W / sw) (?H / sh))"
  have W: "0 < ?W" and H: "0 < ?H" by (simp_all add: orDefault_pos)
  have bg: "transformSize True opts (sw, sh) = (?s * sw, ?s * sh)"
    by (simp add: transformSize_def sharpResize_def resizeFor_def Let_def)
  note sc = inside_scale [OF W H assms]
  have p1: "transformSize False opts (sw, sh)
           = (real (orDefault (opt_width opts) 400), real (orDefault (opt_height opts) 400))"
    by (simp add: transformSize_def sharpResize_def resizeFor_def)
  have p2: "0 < rw \<and> 0 < rh \<longrightarrow>
            transformSize False \<lparr> opt_width = Some rw, opt_height = Some rh, opt_quality = q \<rparr> (sw, sh)
              = (real rw, real rh)"
    by (simp add: transformSize_def sharpResize_def resizeFor_def orDefault_def)
  have p3: "transformSize False \<lparr> opt_width = None, opt_height = None, opt_quality = q \<rparr> (sw, sh)
              = (400, 400)"
    by (simp add: transformSize_def sharpResize_def resizeFor_def orDefault_def)
  have b1: "fst (transformSize True opts (sw, sh)) \<le> ?W" using sc(3) by (simp add: bg)
  have b2: "snd (transformSize True opts (sw, sh)) \<le> ?H" using sc(4) by (simp add: bg)
  have b3: "fst (transformSize True opts (sw, sh)) * sh = snd (transformSize True opts (sw, sh)) * sw"
    by (simp add: bg)
  have b4: "fst (transformSize True opts (sw, sh)) \<le> sw"
    using sc(2) assms(1) by (simp add: bg mult_le_cancel_right1)
  have b5: "snd (transformSize True opts (sw, sh)) \<le> sh"
    using sc(2) assms(2) by (simp add: bg mult_le_cancel_right1)
  have b6: "0 < fst (transformSize True opts (sw, sh))" using sc(1) assms(1) by (simp add: bg)
  have b7: "0 < snd (transformSize True opts (sw, sh))" using sc(1) assms(2) by (simp add: bg)
  from p1 p2 p3 b1 b2 b3 b4 b5 b6 b7 show ?thesis by blast
qed

theorem transform_geometry_witness:
  "(0::real) < 3000 \<and> (0::real) < 1000 \<and> (0::nat) < 300 \<and> (0::nat) < 200
   \<and> transformSize False \<lparr> opt_width = Some 300, opt_height = Some 200, opt_quality = None \<rparr> (3000, 1000)
       = (300, 200)
   \<and> transformSize False profileOptions (3000, 1000) = (400, 400)
   \<and> transformSize True backgroundOptions (3000, 1000) = (1200, 400)
   \<and> fst (transformSize True backgroundOptions (3000, 1000)) \<le> 1200
   \<and> snd (transformSize True backgroundOptions (3000, 1000)) \<le> 800
   \<and> fst (transformSize True backgroundOptions (3000, 1000)) * 1000
       = snd (transformSize True backgroundOptions (3000, 1000)) * 3000"
proof -
  have e: "transformSize True backgroundOptions (3000, 1000) = (1200, 400)"
    by (simp add: transformSize_def sharpResize_def resizeFor_def orDefault_def
        backgroundOptions_def Let_def)
  from transform_geometry [of 3000 1000 profileOptions 300 200 None]
    transform_geometry [of 3000 1000 backgroundOptions 300 200 None] e
  show ?thesis
    by (simp add: profileOptions_def backgroundOptions_def orDefault_def)
qed

end
